theory Spec2Isabelle
  imports Main "HOL-Library.AList" "HOL-Library.Word"
begin

unbundle bit_operations_syntax

section \<open>Python strings\<close>

text \<open>
  A Python \<open>str\<close> is modelled as a \<open>string\<close> whose characters are the code points
  0..255. \<open>isspace\<close> lists the code points in that range for which Python's
  \<open>str.isspace\<close> holds; \<open>strip\<close> is \<open>str.strip()\<close>, \<open>startswith\<close> is
  \<open>str.startswith\<close>, \<open>split_nl\<close> is \<open>text.split("\n")\<close> and \<open>join_nl\<close> is
  \<open>"\n".join(...)\<close>.
\<close>

definition isspace :: "char \<Rightarrow> bool" where
  "isspace c = (of_char c \<in> set [9, 10, 11, 12, 13, 28, 29, 30, 31, 32, 133, 160 :: nat])"

definition strip :: "string \<Rightarrow> string" where
  "strip s = rev (dropWhile isspace (rev (dropWhile isspace s)))"

definition startswith :: "string \<Rightarrow> string \<Rightarrow> bool" where
  "startswith s p = (take (length p) s = p)"

definition newline :: char where
  "newline = CHR 0x0A"

fun split_nl :: "string \<Rightarrow> string list" where
  "split_nl [] = [[]]"
| "split_nl (c # cs) =
     (if c = newline then [] # split_nl cs
      else (case split_nl cs of
              [] \<Rightarrow> [[c]]
            | l # ls \<Rightarrow> (c # l) # ls))"

fun join_nl :: "string list \<Rightarrow> string" where
  "join_nl [] = []"
| "join_nl [l] = l"
| "join_nl (l # ls) = l @ newline # join_nl ls"

text \<open>\<open>str.lower()\<close> on the code points 0..255 and the substring test \<open>p in s\<close>.\<close>

definition lower_char :: "char \<Rightarrow> char" where
  "lower_char c =
     (let n = (of_char c :: nat)
      in if (65 \<le> n \<and> n \<le> 90) \<or> (192 \<le> n \<and> n \<le> 222 \<and> n \<noteq> 215)
         then char_of (n + 32) else c)"

definition lower :: "string \<Rightarrow> string" where
  "lower s = map lower_char s"

fun contains_str :: "string \<Rightarrow> string \<Rightarrow> bool" where
  "contains_str [] p = (p = [])"
| "contains_str (c # cs) p = (startswith (c # cs) p \<or> contains_str cs p)"

section \<open>Script Extractor: \<open>_extract_code_blocks\<close>\<close>

text \<open>
  The two agents that run scripts carry the same extractor. Its loop state is the
  triple \<open>(code_blocks, in_code_block, current_block)\<close>; \<open>extract_step\<close> is the
  body of the \<open>for line in lines\<close> loop with its \<open>if\<close>/\<open>elif\<close> chain in
  source order.
\<close>

definition fence_open :: string where
  "fence_open = ''```python''"

definition fence_close :: string where
  "fence_close = ''```''"

type_synonym extract_state = "string list \<times> bool \<times> string list"

fun extract_step :: "extract_state \<Rightarrow> string \<Rightarrow> extract_state" where
  "extract_step (code_blocks, in_code_block, current_block) line =
     (if startswith (strip line) fence_open then (code_blocks, True, [])
      else if strip line = fence_close \<and> in_code_block then
        (if current_block \<noteq> [] then code_blocks @ [join_nl current_block] else code_blocks,
         False, current_block)
      else if in_code_block then (code_blocks, in_code_block, current_block @ [line])
      else (code_blocks, in_code_block, current_block))"

definition extract_code_blocks :: "string \<Rightarrow> string list" where
  "extract_code_blocks text = fst (foldl extract_step ([], False, []) (split_nl text))"

text \<open>
  The shape of a completion text in the words of the specification: a sequence of
  segments, each a line of prose or a fenced span (an opening line, body lines, a
  closing line), possibly followed by a span that is opened and never closed.
\<close>

definition is_open :: "string \<Rightarrow> bool" where
  "is_open l = startswith (strip l) fence_open"

definition is_close :: "string \<Rightarrow> bool" where
  "is_close l = (strip l = fence_close)"

definition plain_line :: "string \<Rightarrow> bool" where
  "plain_line l = (\<not> is_open l \<and> \<not> is_close l)"

datatype segment = Prose string | Span string "string list" string

fun seg_lines :: "segment \<Rightarrow> string list" where
  "seg_lines (Prose l) = [l]"
| "seg_lines (Span opn body cls) = opn # body @ [cls]"

fun wf_segment :: "segment \<Rightarrow> bool" where
  "wf_segment (Prose l) = (\<not> is_open l)"
| "wf_segment (Span opn body cls) = (is_open opn \<and> list_all plain_line body \<and> is_close cls)"

fun is_span :: "segment \<Rightarrow> bool" where
  "is_span (Prose l) = False"
| "is_span (Span opn body cls) = True"

fun seg_scripts :: "segment \<Rightarrow> string list" where
  "seg_scripts (Prose l) = []"
| "seg_scripts (Span opn body cls) = (if body = [] then [] else [join_nl body])"

fun unterminated :: "string list \<Rightarrow> bool" where
  "unterminated [] = True"
| "unterminated (opn # rest) = (is_open opn \<and> list_all (\<lambda>l. \<not> is_close l) rest)"

definition doc_lines :: "segment list \<Rightarrow> string list \<Rightarrow> string list" where
  "doc_lines segs open_tail = concat (map seg_lines segs) @ open_tail"

definition wf_doc :: "segment list \<Rightarrow> string list \<Rightarrow> bool" where
  "wf_doc segs open_tail =
     (list_all wf_segment segs \<and> unterminated open_tail \<and>
      list_all (\<lambda>l. newline \<notin> set l) (doc_lines segs open_tail))"

fun has_body :: "segment \<Rightarrow> bool" where
  "has_body (Prose l) = False"
| "has_body (Span opn body cls) = (body \<noteq> [])"

section \<open>Values, tables, exceptions\<close>

text \<open>
  \<open>jval\<close> is plain Python data: \<open>None\<close>, \<open>bool\<close>, \<open>int\<close>, \<open>float\<close> (its 64-bit
  pattern), \<open>str\<close>, \<open>list\<close> and \<open>dict\<close> with string keys. A dict is an association
  list in insertion order; \<open>AList.update k v d\<close> is the assignment \<open>d[k] = v\<close>
  (an existing key keeps its place, a new key is appended).

  A \<open>DataFrame\<close> is a mutable object: the namespace of a script and the agent's
  \<open>self.dataframes\<close> hold references to it (\<open>addr\<close>), and \<open>heap\<close> maps each
  reference to the table's current content. What a sandbox name can be bound to is a
  \<open>pyval\<close>: plain data, a reference to a DataFrame, a numpy array (only its shape is
  ever read) or any other object (a module, a function, ...).

  \<open>exn\<close> is an instance of Python's \<open>Exception\<close> (what \<open>except Exception\<close>
  catches): its class name and \<open>str(e)\<close>.
\<close>

type_synonym addr = nat

datatype jval =
    JNone
  | JBool bool
  | JInt int
  | JFloat "64 word"
  | JStr string
  | JList "jval list"
  | JDict "(string \<times> jval) list"

record dataframe =
  df_columns :: "string list"
  df_rows :: "jval list list"

definition shape :: "dataframe \<Rightarrow> nat list" where
  "shape df = [length (df_rows df), length (df_columns df)]"

type_synonym heap = "addr \<Rightarrow> dataframe"

datatype pyval = PData jval | PDataFrame addr | PNdarray "nat list" | PObject string

datatype exn = Exn (exn_type: string) (exn_str: string)

type_synonym 'v dict = "(string \<times> 'v) list"

text \<open>A dict display \<open>{k1: v1, ..., **d}\<close>: the items are assigned in order.\<close>

definition dict_of_items :: "(string \<times> 'v) list \<Rightarrow> 'v dict" where
  "dict_of_items kvs = foldl (\<lambda>d (k, v). AList.update k v d) [] kvs"

text \<open>\<open>str(n)\<close> for a natural number and \<open>str(t)\<close> for a tuple of them (a shape).\<close>

definition digit_char :: "nat \<Rightarrow> char" where
  "digit_char d = ''0123456789'' ! d"

function str_nat :: "nat \<Rightarrow> string" where
  "str_nat n = (if n < 10 then [digit_char n] else str_nat (n div 10) @ [digit_char (n mod 10)])"
  by pat_completeness auto
termination
  by (relation "measure id") auto

declare str_nat.simps [simp del]

fun join_comma :: "string list \<Rightarrow> string" where
  "join_comma [] = []"
| "join_comma [s] = s"
| "join_comma (s # ss) = s @ '', '' @ join_comma ss"

definition str_tuple :: "nat list \<Rightarrow> string" where
  "str_tuple ns =
     (case ns of
        [n] \<Rightarrow> ''('' @ str_nat n @ '',)''
      | _ \<Rightarrow> ''('' @ join_comma (map str_nat ns) @ '')'')"

section \<open>Script Execution Sandbox: \<open>CodeInterpreterAgent._execute_code\<close>\<close>

text \<open>
  The Python interpreter behind \<open>exec(code, exec_globals)\<close> is a parameter. Given the
  script, the namespace it starts from and the store, it yields what \<open>_execute_code\<close>
  can observe afterwards: the namespace as the script left it (\<open>exec\<close> updates the
  dict in place, also when the script raises part-way), the store (a script can change
  a table object it reaches through a name), the text written to standard output and to
  standard error, and the exception if one was raised. \<open>traceback.format_exc()\<close> is
  a parameter as well.
\<close>

type_synonym namespace = "pyval dict"

type_synonym registry = "addr dict"

record exec_outcome =
  ns_after :: namespace
  heap_after :: heap
  stdout_text :: string
  stderr_text :: string
  raised :: "exn option"

type_synonym interpreter = "string \<Rightarrow> namespace \<Rightarrow> heap \<Rightarrow> exec_outcome"

record script_result =
  sr_code :: string
  sr_success :: bool
  sr_output :: string
  sr_error :: "string option"
  sr_variables :: "jval dict"
  sr_traceback :: "string option"

text \<open>\<open>exec_globals = {"pd": pd, "np": np, **{name: df for name, df in self.dataframes.items()}}\<close>\<close>

definition exec_globals :: "registry \<Rightarrow> namespace" where
  "exec_globals dataframes =
     dict_of_items ([(''pd'', PObject ''pd''), (''np'', PObject ''np'')] @
                    map (\<lambda>(name, df). (name, PDataFrame df)) dataframes)"

text \<open>\<open>isinstance(value, (int, float, str, bool, list, dict))\<close> on plain data.\<close>

fun isinstance_plain :: "jval \<Rightarrow> bool" where
  "isinstance_plain JNone = False"
| "isinstance_plain (JBool b) = True"
| "isinstance_plain (JInt i) = True"
| "isinstance_plain (JFloat f) = True"
| "isinstance_plain (JStr s) = True"
| "isinstance_plain (JList xs) = True"
| "isinstance_plain (JDict d) = True"

text \<open>
  The body of \<open>for key, value in exec_globals.items()\<close>: the loop state is
  \<open>(result["variables"], self.dataframes)\<close>.
\<close>

fun harvest_step :: "heap \<Rightarrow> string \<times> pyval \<Rightarrow> jval dict \<times> registry \<Rightarrow> jval dict \<times> registry" where
  "harvest_step h (key, value) (variables, dataframes) =
     (if \<not> startswith key ''_'' \<and> key \<notin> set [''pd'', ''np''] then
        (case value of
           PData j \<Rightarrow>
             if isinstance_plain j then (AList.update key j variables, dataframes)
             else (variables, dataframes)
         | PDataFrame df \<Rightarrow>
             (AList.update key (JStr (''DataFrame'' @ str_tuple (shape (h df)))) variables,
              AList.update key df dataframes)
         | PNdarray shp \<Rightarrow>
             (AList.update key (JStr (''Array'' @ str_tuple shp)) variables, dataframes)
         | PObject obj \<Rightarrow> (variables, dataframes))
      else (variables, dataframes))"

text \<open>
  \<open>_execute_code\<close> returns the result dict and leaves the agent's \<open>self.dataframes\<close>
  and the store as its effects.
\<close>

definition execute_code ::
  "interpreter \<Rightarrow> (exn \<Rightarrow> string) \<Rightarrow> string \<Rightarrow> registry \<Rightarrow> heap \<Rightarrow>
     script_result \<times> registry \<times> heap" where
  "execute_code exec format_exc code dataframes h =
     (let out = exec code (exec_globals dataframes) h in
      case raised out of
        None \<Rightarrow>
          (let (variables, dataframes') =
                 fold (harvest_step (heap_after out)) (ns_after out) ([], dataframes)
           in (\<lparr>sr_code = code, sr_success = True, sr_output = stdout_text out,
                sr_error = None, sr_variables = variables, sr_traceback = None\<rparr>,
               dataframes', heap_after out))
      | Some e \<Rightarrow>
          (\<lparr>sr_code = code, sr_success = False, sr_output = stderr_text out,
            sr_error = Some (exn_str e), sr_variables = [],
            sr_traceback = Some (format_exc e)\<rparr>,
           dataframes, heap_after out))"

text \<open>
  The harvesting rules in the words of the specification, for one binding of the final
  namespace: what the harvested map holds for it, and the table it puts in the registry.
\<close>

definition harvestable_key :: "string \<Rightarrow> bool" where
  "harvestable_key key = (\<not> startswith key ''_'' \<and> key \<noteq> ''pd'' \<and> key \<noteq> ''np'')"

fun harvested_value :: "heap \<Rightarrow> pyval \<Rightarrow> jval option" where
  "harvested_value h (PData j) = (if j = JNone then None else Some j)"
| "harvested_value h (PDataFrame df) = Some (JStr (''DataFrame'' @ str_tuple (shape (h df))))"
| "harvested_value h (PNdarray shp) = Some (JStr (''Array'' @ str_tuple shp))"
| "harvested_value h (PObject obj) = None"

fun harvested_table :: "pyval \<Rightarrow> addr option" where
  "harvested_table (PDataFrame df) = Some df"
| "harvested_table v = None"

definition harvest_spec :: "heap \<Rightarrow> namespace \<Rightarrow> string \<Rightarrow> jval option" where
  "harvest_spec h ns key =
     (case map_of ns key of
        None \<Rightarrow> None
      | Some v \<Rightarrow> if harvestable_key key then harvested_value h v else None)"

definition registry_spec :: "registry \<Rightarrow> namespace \<Rightarrow> string \<Rightarrow> addr option" where
  "registry_spec dataframes ns key =
     (case map_of ns key of
        None \<Rightarrow> map_of dataframes key
      | Some v \<Rightarrow>
          (if harvestable_key key then
             (case harvested_table v of None \<Rightarrow> map_of dataframes key | Some df \<Rightarrow> Some df)
           else map_of dataframes key))"

text \<open>
  The table the registry holds under a name: the content, in the store, of the object
  the name refers to.
\<close>

definition table_of :: "registry \<Rightarrow> heap \<Rightarrow> string \<Rightarrow> dataframe option" where
  "table_of dataframes h name = map_option h (map_of dataframes name)"

text \<open>Example data for the closed instances below.\<close>

definition sales_table :: dataframe where
  "sales_table =
     \<lparr>df_columns = [''region'', ''revenue''],
      df_rows = [[JStr ''north'', JInt 10], [JStr ''south'', JInt 20]]\<rparr>"

definition top_table :: dataframe where
  "top_table = \<lparr>df_columns = [''region'', ''revenue''], df_rows = [[JStr ''south'', JInt 20]]\<rparr>"

definition empty_table :: dataframe where
  "empty_table = \<lparr>df_columns = [], df_rows = []\<rparr>"

definition sales_heap :: heap where
  "sales_heap = (\<lambda>a. if a = 0 then sales_table else empty_table)"



definition no_traceback :: "exn \<Rightarrow> string" where
  "no_traceback e = ''Traceback (most recent call last): '' @ exn_type e @ '': '' @ exn_str e"

text \<open>The script \<open>pass\<close>: it binds nothing, prints nothing and returns.\<close>

definition pass_interpreter :: interpreter where
  "pass_interpreter code ns h =
     \<lparr>ns_after = ns, heap_after = h, stdout_text = [], stderr_text = [], raised = None\<rparr>"

text \<open>
  A script that binds a scalar, a derived table, an array, a module, a private name and
  \<open>None\<close>, prints a line and returns; \<open>exec\<close> also leaves \<open>__builtins__\<close> in the
  namespace.
\<close>

definition analysis_interpreter :: interpreter where
  "analysis_interpreter code ns h =
     \<lparr>ns_after = ns @ [(''__builtins__'', PObject ''builtins''), (''total'', PData (JInt 30)),
                       (''top'', PDataFrame 1), (''arr'', PNdarray [2]),
                       (''os'', PObject ''os''), (''_tmp'', PData (JInt 1)),
                       (''nothing'', PData JNone)],
      heap_after = h(1 := top_table), stdout_text = ''30\<newline>'', stderr_text = [],
      raised = None\<rparr>"


section \<open>Dynamic operations on plain data\<close>

text \<open>
  The workers read the context with Python's dynamic operations; on plain data each of
  them either yields a value or raises, as written out below (\<open>key in v\<close>, \<open>v[key]\<close>,
  truth value, iteration, \<open>v.items()\<close>, \<open>v.get(key, default)\<close>, \<open>v > 0\<close>). The
  texts of the exceptions are written without quotes.
\<close>

fun type_name :: "jval \<Rightarrow> string" where
  "type_name JNone = ''NoneType''"
| "type_name (JBool b) = ''bool''"
| "type_name (JInt i) = ''int''"
| "type_name (JFloat f) = ''float''"
| "type_name (JStr s) = ''str''"
| "type_name (JList xs) = ''list''"
| "type_name (JDict d) = ''dict''"

fun py_items :: "jval \<Rightarrow> exn + (string \<times> jval) list" where
  "py_items (JDict d) = Inr d"
| "py_items v = Inl (Exn ''AttributeError'' (type_name v @ '' object has no attribute items''))"

fun py_contains :: "string \<Rightarrow> jval \<Rightarrow> exn + bool" where
  "py_contains key (JDict d) = Inr (map_of d key \<noteq> None)"
| "py_contains key (JStr s) = Inr (contains_str s key)"
| "py_contains key (JList xs) = Inr (JStr key \<in> set xs)"
| "py_contains key v =
     Inl (Exn ''TypeError'' (''argument of type '' @ type_name v @ '' is not iterable''))"

fun py_getitem :: "jval \<Rightarrow> string \<Rightarrow> exn + jval" where
  "py_getitem (JDict d) key =
     (case map_of d key of None \<Rightarrow> Inl (Exn ''KeyError'' key) | Some x \<Rightarrow> Inr x)"
| "py_getitem (JStr s) key = Inl (Exn ''TypeError'' ''string indices must be integers'')"
| "py_getitem (JList xs) key =
     Inl (Exn ''TypeError'' ''list indices must be integers or slices, not str'')"
| "py_getitem v key =
     Inl (Exn ''TypeError'' (type_name v @ '' object is not subscriptable''))"

definition float_is_zero :: "64 word \<Rightarrow> bool" where
  "float_is_zero f = (take_bit 63 f = 0)"

definition float_is_nan :: "64 word \<Rightarrow> bool" where
  "float_is_nan f = (take_bit 11 (drop_bit 52 f) = 2047 \<and> take_bit 52 f \<noteq> 0)"

definition float_gt_zero :: "64 word \<Rightarrow> bool" where
  "float_gt_zero f = (\<not> bit f 63 \<and> \<not> float_is_zero f \<and> \<not> float_is_nan f)"

fun py_truthy :: "jval \<Rightarrow> bool" where
  "py_truthy JNone = False"
| "py_truthy (JBool b) = b"
| "py_truthy (JInt i) = (i \<noteq> 0)"
| "py_truthy (JFloat f) = (\<not> float_is_zero f)"
| "py_truthy (JStr s) = (s \<noteq> [])"
| "py_truthy (JList xs) = (xs \<noteq> [])"
| "py_truthy (JDict d) = (d \<noteq> [])"

fun py_iter :: "jval \<Rightarrow> exn + jval list" where
  "py_iter (JList xs) = Inr xs"
| "py_iter (JDict d) = Inr (map (\<lambda>(k, v). JStr k) d)"
| "py_iter (JStr s) = Inr (map (\<lambda>c. JStr [c]) s)"
| "py_iter v = Inl (Exn ''TypeError'' (type_name v @ '' object is not iterable''))"

fun py_get :: "jval \<Rightarrow> string \<Rightarrow> jval \<Rightarrow> exn + jval" where
  "py_get (JDict d) key dflt = Inr (case map_of d key of None \<Rightarrow> dflt | Some x \<Rightarrow> x)"
| "py_get v key dflt =
     Inl (Exn ''AttributeError'' (type_name v @ '' object has no attribute get''))"

fun py_gt_zero :: "jval \<Rightarrow> exn + bool" where
  "py_gt_zero (JInt i) = Inr (0 < i)"
| "py_gt_zero (JBool b) = Inr b"
| "py_gt_zero (JFloat f) = Inr (float_gt_zero f)"
| "py_gt_zero v =
     Inl (Exn ''TypeError''
           (''> not supported between instances of '' @ type_name v @ '' and int''))"

text \<open>
  A prompt is kept as the sequence of its pieces: literal text, values formatted by an
  f-string and values rendered by \<open>json.dumps(v, indent=2, default=str)\<close> (on plain
  data neither raises).
\<close>

datatype piece = Lit string | Fmt jval | Dump jval

type_synonym prompt = "piece list"

text \<open>
  The loop \<open>for result in ci_data["results"]\<close>, which both workers have:
  \<open>if result.get("output"): prompt += f"{result['output']}\n"\<close>.
\<close>

fun results_output :: "jval list \<Rightarrow> prompt \<Rightarrow> exn + prompt" where
  "results_output [] prompt = Inr prompt"
| "results_output (result # results) prompt =
     (case py_get result ''output'' JNone of
        Inl e \<Rightarrow> Inl e
      | Inr out \<Rightarrow>
          if py_truthy out then
            (case py_getitem result ''output'' of
               Inl e \<Rightarrow> Inl e
             | Inr v \<Rightarrow> results_output results (prompt @ [Fmt v, Lit ''\<newline>'']))
          else results_output results prompt)"

section \<open>Plotting sandbox: \<open>VisualizationAgent._create_visualization\<close>\<close>

text \<open>
  \<open>base64.b64encode\<close> of the standard library, written out (RFC 4648, the standard
  alphabet, padded with \<open>=\<close>), and \<open>base64.b64decode\<close>, its inverse, which the
  round-trip property is stated with. A byte is an \<open>8 word\<close>.
\<close>

type_synonym byte = "8 word"

definition b64_alphabet :: string where
  "b64_alphabet = ''ABCDEFGHIJKLMNOPQRSTUVWXYZabcdefghijklmnopqrstuvwxyz0123456789+/''"

definition b64_char :: "nat \<Rightarrow> char" where
  "b64_char n = b64_alphabet ! n"

fun index_of :: "'a list \<Rightarrow> 'a \<Rightarrow> nat" where
  "index_of [] x = 0"
| "index_of (y # ys) x = (if x = y then 0 else Suc (index_of ys x))"

definition b64_index :: "char \<Rightarrow> nat" where
  "b64_index c = index_of b64_alphabet c"

fun b64encode :: "byte list \<Rightarrow> string" where
  "b64encode [] = []"
| "b64encode [a] =
     [b64_char (unat a div 4), b64_char (unat a mod 4 * 16), CHR ''='', CHR ''='']"
| "b64encode [a, b] =
     [b64_char (unat a div 4), b64_char (unat a mod 4 * 16 + unat b div 16),
      b64_char (unat b mod 16 * 4), CHR ''='']"
| "b64encode (a # b # c # rest) =
     [b64_char (unat a div 4), b64_char (unat a mod 4 * 16 + unat b div 16),
      b64_char (unat b mod 16 * 4 + unat c div 64), b64_char (unat c mod 64)] @ b64encode rest"

fun b64decode :: "string \<Rightarrow> byte list" where
  "b64decode (p # q # r # s # rest) =
     (if r = CHR ''='' then [of_nat (b64_index p * 4 + b64_index q div 16)]
      else if s = CHR ''='' then
        [of_nat (b64_index p * 4 + b64_index q div 16),
         of_nat (b64_index q mod 16 * 16 + b64_index r div 4)]
      else
        of_nat (b64_index p * 4 + b64_index q div 16) #
        of_nat (b64_index q mod 16 * 16 + b64_index r div 4) #
        of_nat (b64_index r mod 4 * 64 + b64_index s) # b64decode rest)"
| "b64decode cs = []"

text \<open>
  The file system is a map from paths to file contents. The plotting script is run by
  \<open>exec(code, exec_globals)\<close> with no output capture; the interpreter is a parameter
  that yields the exception, if any, and the file system the script leaves.

  The namespace binds the four library handles and, for every item of
  \<open>context["dataframes"]\<close>, a table built by \<open>pd.DataFrame(data)\<close> when the item is a
  dict (the constructor is a parameter and can raise) and the item itself otherwise.
  This part runs before the \<open>try\<close>: what it raises leaves \<open>_create_visualization\<close>.
\<close>

type_synonym filesystem = "string \<Rightarrow> byte list option"

datatype vizval = VModule string | VFrame dataframe | VData jval

type_synonym plot_interpreter =
  "string \<Rightarrow> vizval dict \<Rightarrow> filesystem \<Rightarrow> exn option \<times> filesystem"

record viz_result =
  vr_code :: string
  vr_success :: bool
  vr_image_base64 :: "string option"
  vr_error :: "string option"
  vr_description :: string

fun bind_dataframes ::
  "(jval dict \<Rightarrow> exn + dataframe) \<Rightarrow> (string \<times> jval) list \<Rightarrow> vizval dict \<Rightarrow> exn + vizval dict" where
  "bind_dataframes DataFrame [] plot_ns = Inr plot_ns"
| "bind_dataframes DataFrame ((name, JDict d) # items) plot_ns =
     (case DataFrame d of
        Inl e \<Rightarrow> Inl e
      | Inr df \<Rightarrow> bind_dataframes DataFrame items (AList.update name (VFrame df) plot_ns))"
| "bind_dataframes DataFrame ((name, v) # items) plot_ns =
     bind_dataframes DataFrame items (AList.update name (VData v) plot_ns)"

definition viz_globals :: "(jval dict \<Rightarrow> exn + dataframe) \<Rightarrow> jval dict \<Rightarrow> exn + vizval dict" where
  "viz_globals DataFrame context =
     (let plot_ns = [(''plt'', VModule ''plt''), (''sns'', VModule ''sns''),
                          (''pd'', VModule ''pd''), (''np'', VModule ''np'')]
      in case map_of context ''dataframes'' of
           None \<Rightarrow> Inr plot_ns
         | Some dataframes \<Rightarrow>
             (case py_items dataframes of
                Inl e \<Rightarrow> Inl e
              | Inr items \<Rightarrow> bind_dataframes DataFrame items plot_ns))"

definition plot_path :: string where
  "plot_path = ''plot.png''"

definition create_visualization ::
  "(jval dict \<Rightarrow> exn + dataframe) \<Rightarrow> plot_interpreter \<Rightarrow> string \<Rightarrow> jval dict \<Rightarrow> filesystem \<Rightarrow>
     (exn + viz_result) \<times> filesystem" where
  "create_visualization DataFrame exec code context fs =
     (case viz_globals DataFrame context of
        Inl e \<Rightarrow> (Inl e, fs)
      | Inr plot_ns \<Rightarrow>
          (case exec code plot_ns fs of
             (None, fs1) \<Rightarrow>
               (case fs1 plot_path of
                  Some img_data \<Rightarrow>
                    (Inr \<lparr>vr_code = code, vr_success = True,
                          vr_image_base64 = Some (b64encode img_data), vr_error = None,
                          vr_description = ''Visualization created successfully''\<rparr>,
                     fs1(plot_path := None))
                | None \<Rightarrow>
                    (Inr \<lparr>vr_code = code, vr_success = False, vr_image_base64 = None,
                          vr_error = Some ''No plot file was created'', vr_description = []\<rparr>,
                     fs1))
           | (Some e, fs1) \<Rightarrow>
               (Inr \<lparr>vr_code = code, vr_success = False, vr_image_base64 = None,
                     vr_error = Some (exn_str e), vr_description = []\<rparr>,
                fs1)))"

section \<open>Result envelope: \<open>AgentResult\<close>\<close>

text \<open>
  \<open>AgentResult.data\<close> is typed \<open>Any\<close>; \<open>payload\<close> has one constructor for each shape
  the four agents build. The table contents that the Analysis payload carries
  (\<open>v.to_dict()\<close>) are kept as the tables themselves.
\<close>

record analysis_data =
  ad_analysis :: string
  ad_code_executed :: "string list option"
  ad_results :: "script_result list option"
  ad_dataframes :: "dataframe dict option"
  ad_dataframes_info :: "jval dict"

record visualization_data =
  vd_analysis :: string
  vd_visualizations :: "viz_result list"
  vd_visualization_count :: "nat option"

datatype payload =
    NoData
  | ErrorData string "string option"
  | AnalysisData analysis_data
  | VisualizationData visualization_data
  | PresentationData jval string string
  | AnswerData string string string bool

record agent_result =
  success :: bool
  data :: payload
  message :: string
  agent_name :: string
  next_agent :: "string option"
  metadata :: "jval dict"

section \<open>Analysis worker: \<open>CodeInterpreterAgent.process\<close>\<close>

text \<open>
  What the worker calls outside this repository is a parameter: \<open>pd.read_csv\<close> (it
  allocates a table object or raises), the summary dict built from the table by pandas
  calls (it can raise), the rendering of the prompt (f-strings over tables and the
  context), the model call with \<open>response.text\<close>, \<open>traceback.format_exc()\<close> and the
  interpreter.
\<close>

record analysis_env =
  env_read_csv :: "string \<Rightarrow> heap \<Rightarrow> exn + addr \<times> heap"
  env_summary :: "dataframe \<Rightarrow> exn + jval"
  env_build_prompt :: "string \<Rightarrow> jval dict \<Rightarrow> registry \<Rightarrow> heap \<Rightarrow> exn + string"
  env_generate_content :: "string \<Rightarrow> exn + string"
  env_format_exc :: "exn \<Rightarrow> string"
  env_exec :: interpreter

definition viz_keywords :: "string list" where
  "viz_keywords =
     [''plot'', ''graph'', ''chart'', ''visualize'', ''show'', ''display'', ''trend'',
      ''distribution'', ''compare'', ''correlation'']"

definition needs_visualization :: "string \<Rightarrow> script_result list \<Rightarrow> bool" where
  "needs_visualization query results =
     (let query_lower = lower query
      in list_ex (\<lambda>keyword. contains_str query_lower keyword) viz_keywords)"

text \<open>
  The loop over \<open>files.items()\<close>, with its early return: the result is the failure
  envelope, if a file failed, and the registry, the context and the store as the loop
  left them.
\<close>

definition csv_failure :: "string \<Rightarrow> exn \<Rightarrow> agent_result" where
  "csv_failure filename e =
     \<lparr>success = False, data = NoData,
      message = ''Error loading CSV file '' @ filename @ '': '' @ exn_str e,
      agent_name = ''CodeInterpreter'', next_agent = None, metadata = []\<rparr>"

fun load_files ::
  "analysis_env \<Rightarrow> (string \<times> string) list \<Rightarrow> registry \<Rightarrow> jval dict \<Rightarrow> heap \<Rightarrow>
     agent_result option \<times> registry \<times> jval dict \<times> heap" where
  "load_files env [] dataframes context h = (None, dataframes, context, h)"
| "load_files env ((filename, filepath) # files) dataframes context h =
     (case env_read_csv env filepath h of
        Inl e \<Rightarrow> (Some (csv_failure filename e), dataframes, context, h)
      | Inr (df, h1) \<Rightarrow>
          (case env_summary env (h1 df) of
             Inl e \<Rightarrow>
               (Some (csv_failure filename e), AList.update filename df dataframes, context, h1)
           | Inr info \<Rightarrow>
               load_files env files (AList.update filename df dataframes)
                 (AList.update (''df_'' @ filename) info context) h1))"

text \<open>The loop \<open>for i, code in enumerate(code_blocks)\<close>.\<close>

fun run_scripts ::
  "analysis_env \<Rightarrow> string list \<Rightarrow> script_result list \<Rightarrow> registry \<Rightarrow> heap \<Rightarrow>
     script_result list \<times> registry \<times> heap" where
  "run_scripts env [] execution_results dataframes h = (execution_results, dataframes, h)"
| "run_scripts env (code # code_blocks) execution_results dataframes h =
     (case execute_code (env_exec env) (env_format_exc env) code dataframes h of
        (result, dataframes1, h1) \<Rightarrow>
          run_scripts env code_blocks (execution_results @ [result]) dataframes1 h1)"

definition shape_value :: "dataframe \<Rightarrow> jval" where
  "shape_value df = JList (map (\<lambda>n. JInt (int n)) (shape df))"

definition interpretation_failure :: "analysis_env \<Rightarrow> exn \<Rightarrow> agent_result" where
  "interpretation_failure env e =
     \<lparr>success = False, data = ErrorData (exn_str e) (Some (env_format_exc env e)),
      message = ''Error during code interpretation: '' @ exn_str e,
      agent_name = ''CodeInterpreter'', next_agent = None, metadata = []\<rparr>"

definition analysis_without_code :: "string \<Rightarrow> registry \<Rightarrow> heap \<Rightarrow> agent_result" where
  "analysis_without_code response_text dataframes h =
     \<lparr>success = True,
      data = AnalysisData
        \<lparr>ad_analysis = response_text, ad_code_executed = None, ad_results = None,
         ad_dataframes = None,
         ad_dataframes_info = map (\<lambda>(k, v). (k, shape_value (h v))) dataframes\<rparr>,
      message = ''Analysis completed without code execution'',
      agent_name = ''CodeInterpreter'', next_agent = None, metadata = []\<rparr>"

definition analysis_with_code ::
  "string \<Rightarrow> string \<Rightarrow> string list \<Rightarrow> script_result list \<Rightarrow> registry \<Rightarrow> heap \<Rightarrow> agent_result" where
  "analysis_with_code query response_text code_blocks execution_results dataframes h =
     (let needs_viz = needs_visualization query execution_results
      in \<lparr>success = True,
          data = AnalysisData
            \<lparr>ad_analysis = response_text, ad_code_executed = Some code_blocks,
             ad_results = Some execution_results,
             ad_dataframes = Some (map (\<lambda>(k, v). (k, h v)) dataframes),
             ad_dataframes_info =
               map (\<lambda>(k, v). (k, JDict [(''shape'', shape_value (h v)),
                                         (''columns'', JList (map JStr (df_columns (h v))))]))
                 dataframes\<rparr>,
          message = ''Code execution completed successfully'',
          agent_name = ''CodeInterpreter'',
          next_agent = Some (if needs_viz then ''VisualizationAgent'' else ''AnswerSynthesiser''),
          metadata = [(''needs_visualization'', JBool needs_viz)]\<rparr>)"

text \<open>
  \<open>process\<close> returns an envelope (\<open>Inr\<close>) or raises (\<open>Inl\<close>); its effects are the
  agent's registry and the store. The prompt is built before the \<open>try\<close>.
\<close>

definition CodeInterpreterAgent_process ::
  "analysis_env \<Rightarrow> string \<Rightarrow> jval dict \<Rightarrow> (string \<times> string) list \<Rightarrow> registry \<Rightarrow> heap \<Rightarrow>
     (exn + agent_result) \<times> registry \<times> heap" where
  "CodeInterpreterAgent_process env query context files dataframes h =
     (case load_files env files dataframes context h of
        (Some failure, dataframes1, context1, h1) \<Rightarrow> (Inr failure, dataframes1, h1)
      | (None, dataframes1, context1, h1) \<Rightarrow>
          (case env_build_prompt env query context1 dataframes1 h1 of
             Inl e \<Rightarrow> (Inl e, dataframes1, h1)
           | Inr prompt \<Rightarrow>
               (case env_generate_content env prompt of
                  Inl e \<Rightarrow> (Inr (interpretation_failure env e), dataframes1, h1)
                | Inr response_text \<Rightarrow>
                    (let code_blocks = extract_code_blocks response_text
                     in if code_blocks = [] then
                          (Inr (analysis_without_code response_text dataframes1 h1),
                           dataframes1, h1)
                        else
                          (case run_scripts env code_blocks [] dataframes1 h1 of
                             (execution_results, dataframes2, h2) \<Rightarrow>
                               (Inr (analysis_with_code query response_text code_blocks
                                       execution_results dataframes2 h2),
                                dataframes2, h2))))))"



text \<open>Example environments for the closed instances below.\<close>

definition csv_env :: analysis_env where
  "csv_env =
     \<lparr>env_read_csv = (\<lambda>filepath h.
        if filepath = ''uploads/a.csv'' then Inr (0, h(0 := sales_table))
        else Inl (Exn ''ParserError'' ''Error tokenizing data'')),
      env_summary = (\<lambda>df. Inr (JDict [(''shape'', shape_value df)])),
      env_build_prompt = (\<lambda>query context dataframes h. Inr query),
      env_generate_content = (\<lambda>prompt. Inr ''No code is needed.''),
      env_format_exc = no_traceback,
      env_exec = pass_interpreter\<rparr>"

text \<open>
  A model that answers with two scripts; the interpreter fails on the first
  (\<open>1/0\<close>) and returns on the second.
\<close>

definition two_script_interpreter :: interpreter where
  "two_script_interpreter code ns h =
     (if code = ''x = 1/0'' then
        \<lparr>ns_after = ns, heap_after = h, stdout_text = [], stderr_text = [],
         raised = Some (Exn ''ZeroDivisionError'' ''division by zero'')\<rparr>
      else
        \<lparr>ns_after = ns @ [(''y'', PData (JInt 2))], heap_after = h, stdout_text = ''2\<newline>'',
         stderr_text = [], raised = None\<rparr>)"

definition two_script_env :: analysis_env where
  "two_script_env =
     \<lparr>env_read_csv = (\<lambda>filepath h. Inr (0, h(0 := sales_table))),
      env_summary = (\<lambda>df. Inr (JDict [(''shape'', shape_value df)])),
      env_build_prompt = (\<lambda>query context dataframes h. Inr query),
      env_generate_content =
        (\<lambda>prompt. Inr ''First:\<newline>```python\<newline>x = 1/0\<newline>```\<newline>then:\<newline>```python\<newline>y = 2\<newline>print(y)\<newline>```''),
      env_format_exc = no_traceback,
      env_exec = two_script_interpreter\<rparr>"

section \<open>Plotting worker: \<open>VisualizationAgent.process\<close>\<close>

text \<open>
  \<open>_build_prompt\<close>: the context is rendered by \<open>json.dumps\<close>, and every item of
  \<open>context["dataframes_info"]\<close>, if the key is present, is listed.
\<close>

definition visualization_header :: string where
  "visualization_header =
     ''You are a data visualization expert using matplotlib and seaborn.\<newline>\<newline>User Query: ''"

definition visualization_instructions :: string where
  "visualization_instructions =
     ''\<newline>\<newline>Instructions:\<newline>1. Analyze what visualizations would best answer the user's query\<newline>2. Write Python code using matplotlib and seaborn\<newline>3. Use the data provided in the context\<newline>4. Create clear, informative visualizations\<newline>5. Add proper titles, labels, and legends\<newline>6. Wrap code in ```python blocks\<newline>7. Save each plot using plt.savefig('plot.png', bbox_inches='tight', dpi=150)\<newline>8. Close plots with plt.close() after saving\<newline>\<newline>Available data:\<newline>''"

definition visualization_example :: string where
  "visualization_example =
     ''\<newline>Example:\<newline>```python\<newline>import matplotlib.pyplot as plt\<newline>import seaborn as sns\<newline>\<newline># Create visualization\<newline>plt.figure(figsize=(10, 6))\<newline># ... your plotting code ...\<newline>plt.title('My Chart Title')\<newline>plt.xlabel('X Label')\<newline>plt.ylabel('Y Label')\<newline>plt.savefig('plot.png', bbox_inches='tight', dpi=150)\<newline>plt.close()\<newline>```\<newline>\<newline>Provide your visualization code:\<newline>''"

definition visualization_build_prompt :: "string \<Rightarrow> jval dict \<Rightarrow> exn + prompt" where
  "visualization_build_prompt query context =
     (let prompt0 = [Lit visualization_header, Lit query,
                     Lit ''\<newline>\<newline>Context from Code Interpreter:\<newline>'', Dump (JDict context),
                     Lit visualization_instructions]
      in case map_of context ''dataframes_info'' of
           None \<Rightarrow> Inr (prompt0 @ [Lit visualization_example])
         | Some dataframes_info \<Rightarrow>
             (case py_items dataframes_info of
                Inl e \<Rightarrow> Inl e
              | Inr items \<Rightarrow>
                  Inr (prompt0 @ [Lit ''\<newline>DataFrames:\<newline>''] @
                       concat (map (\<lambda>(name, info). [Lit ''  '', Lit name, Lit '': '', Fmt info,
                                                      Lit ''\<newline>'']) items) @
                       [Lit visualization_example])))"

text \<open>
  The model call, \<open>pd.DataFrame\<close> and the interpreter are parameters. \<open>process\<close>
  builds the prompt before its \<open>try\<close>.
\<close>

record viz_env =
  venv_DataFrame :: "jval dict \<Rightarrow> exn + dataframe"
  venv_generate_content :: "prompt \<Rightarrow> exn + string"
  venv_exec :: plot_interpreter

text \<open>
  The loop \<open>for code in code_blocks\<close>: a result is appended only if its \<open>success\<close>
  flag is set. An exception that leaves \<open>_create_visualization\<close> ends the loop and is
  caught by the \<open>try\<close> of \<open>process\<close>.
\<close>

fun create_all ::
  "viz_env \<Rightarrow> string list \<Rightarrow> jval dict \<Rightarrow> viz_result list \<Rightarrow> filesystem \<Rightarrow>
     (exn + viz_result list) \<times> filesystem" where
  "create_all env [] context visualizations fs = (Inr visualizations, fs)"
| "create_all env (code # code_blocks) context visualizations fs =
     (case create_visualization (venv_DataFrame env) (venv_exec env) code context fs of
        (Inl e, fs1) \<Rightarrow> (Inl e, fs1)
      | (Inr viz_result, fs1) \<Rightarrow>
          create_all env code_blocks context
            (if vr_success viz_result then visualizations @ [viz_result] else visualizations)
            fs1)"

definition visualization_failure :: "exn \<Rightarrow> agent_result" where
  "visualization_failure e =
     \<lparr>success = False, data = ErrorData (exn_str e) None,
      message = ''Error creating visualizations: '' @ exn_str e,
      agent_name = ''VisualizationAgent'', next_agent = None, metadata = []\<rparr>"

definition no_visualizations :: "string \<Rightarrow> agent_result" where
  "no_visualizations response_text =
     \<lparr>success = True,
      data = VisualizationData
        \<lparr>vd_analysis = response_text, vd_visualizations = [], vd_visualization_count = None\<rparr>,
      message = ''No visualizations needed'',
      agent_name = ''VisualizationAgent'', next_agent = Some ''AnswerSynthesiser'',
      metadata = []\<rparr>"

definition visualizations_created :: "string \<Rightarrow> viz_result list \<Rightarrow> agent_result" where
  "visualizations_created response_text visualizations =
     \<lparr>success = True,
      data = VisualizationData
        \<lparr>vd_analysis = response_text, vd_visualizations = visualizations,
         vd_visualization_count = Some (length visualizations)\<rparr>,
      message = ''Created '' @ str_nat (length visualizations) @ '' visualizations'',
      agent_name = ''VisualizationAgent'', next_agent = Some ''AnswerSynthesiser'',
      metadata = [(''has_visualizations'', JBool (length visualizations > 0))]\<rparr>"

definition VisualizationAgent_process ::
  "viz_env \<Rightarrow> string \<Rightarrow> jval dict \<Rightarrow> filesystem \<Rightarrow> (exn + agent_result) \<times> filesystem" where
  "VisualizationAgent_process env query context fs =
     (case visualization_build_prompt query context of
        Inl e \<Rightarrow> (Inl e, fs)
      | Inr prompt \<Rightarrow>
          (case venv_generate_content env prompt of
             Inl e \<Rightarrow> (Inr (visualization_failure e), fs)
           | Inr response_text \<Rightarrow>
               (let code_blocks = extract_code_blocks response_text
                in if code_blocks = [] then (Inr (no_visualizations response_text), fs)
                   else
                     (case create_all env code_blocks context [] fs of
                        (Inl e, fs1) \<Rightarrow> (Inr (visualization_failure e), fs1)
                      | (Inr visualizations, fs1) \<Rightarrow>
                          (Inr (visualizations_created response_text visualizations), fs1)))))"


text \<open>Example interpreters and environments for the closed instances below.\<close>

definition png_bytes :: "byte list" where
  "png_bytes = [0x89, 0x50, 0x4E, 0x47]"

definition savefig_interpreter :: plot_interpreter where
  "savefig_interpreter code ns fs = (None, fs(plot_path := Some png_bytes))"

definition savefig_then_raise :: plot_interpreter where
  "savefig_then_raise code ns fs =
     (Some (Exn ''ValueError'' ''x and y must have same first dimension''),
      fs(plot_path := Some png_bytes))"

definition frame_of_dict :: "jval dict \<Rightarrow> exn + dataframe" where
  "frame_of_dict d = Inr \<lparr>df_columns = map fst d, df_rows = []\<rparr>"

definition empty_fs :: filesystem where
  "empty_fs = (\<lambda>path. None)"



section \<open>Reporting and Synthesis workers\<close>

subsection \<open>\<open>PresentationAgent\<close>\<close>

definition presentation_header :: string where
  "presentation_header =
     ''You are a presentation and report writing expert. Create a comprehensive, well-structured report.\<newline>\<newline>User Query: ''"

definition presentation_instructions :: string where
  "presentation_instructions =
     ''\<newline>Instructions:\<newline>1. Create a professional, structured report/presentation\<newline>2. Use clear markdown formatting with headers\<newline>3. Include the following sections:\<newline>   - Executive Summary\<newline>   - Key Findings\<newline>   - Detailed Analysis\<newline>   - Insights and Recommendations\<newline>   - Conclusion\<newline>4. Use bullet points and numbered lists where appropriate\<newline>5. Highlight important metrics and statistics\<newline>6. Make it easy to understand for both technical and non-technical audiences\<newline>7. Reference visualizations where applicable\<newline>\<newline>Format your response in markdown with clear sections.\<newline>\<newline>Generate the presentation:\<newline>''"

text \<open>The block under \<open>if "code_interpreter_data" in context\<close>.\<close>

definition add_analysis_results :: "jval \<Rightarrow> prompt \<Rightarrow> exn + prompt" where
  "add_analysis_results ci_data prompt0 =
     (let prompt1 = prompt0 @ [Lit ''Analysis Results:\<newline>'']
      in case py_contains ''analysis'' ci_data of
           Inl e \<Rightarrow> Inl e
         | Inr has_analysis \<Rightarrow>
             (case (if has_analysis then
                      (case py_getitem ci_data ''analysis'' of
                         Inl e \<Rightarrow> Inl e
                       | Inr a \<Rightarrow> Inr (prompt1 @ [Fmt a, Lit ''\<newline>\<newline>'']))
                    else Inr prompt1) of
                Inl e \<Rightarrow> Inl e
              | Inr prompt2 \<Rightarrow>
                  (case py_contains ''results'' ci_data of
                     Inl e \<Rightarrow> Inl e
                   | Inr has_results \<Rightarrow>
                       if has_results then
                         (case py_getitem ci_data ''results'' of
                            Inl e \<Rightarrow> Inl e
                          | Inr results \<Rightarrow>
                              if py_truthy results then
                                (case py_iter results of
                                   Inl e \<Rightarrow> Inl e
                                 | Inr items \<Rightarrow>
                                     results_output items
                                       (prompt2 @ [Lit ''Execution Results:\<newline>'']))
                              else Inr prompt2)
                       else Inr prompt2)))"

text \<open>The block under \<open>if "visualization_data" in context\<close>.\<close>

definition add_visualizations :: "jval \<Rightarrow> prompt \<Rightarrow> exn + prompt" where
  "add_visualizations viz_data prompt0 =
     (case py_get viz_data ''visualization_count'' (JInt 0) of
        Inl e \<Rightarrow> Inl e
      | Inr viz_count \<Rightarrow>
          (case py_gt_zero viz_count of
             Inl e \<Rightarrow> Inl e
           | Inr positive \<Rightarrow>
               if positive then
                 (let prompt1 = prompt0 @ [Lit ''\<newline>Visualizations Created: '', Fmt viz_count,
                                          Lit ''\<newline>'']
                  in case py_contains ''analysis'' viz_data of
                       Inl e \<Rightarrow> Inl e
                     | Inr has_analysis \<Rightarrow>
                         if has_analysis then
                           (case py_getitem viz_data ''analysis'' of
                              Inl e \<Rightarrow> Inl e
                            | Inr a \<Rightarrow> Inr (prompt1 @ [Fmt a, Lit ''\<newline>'']))
                         else Inr prompt1)
               else Inr prompt0))"

definition presentation_build_prompt :: "string \<Rightarrow> jval dict \<Rightarrow> exn + prompt" where
  "presentation_build_prompt query context =
     (let prompt0 = [Lit presentation_header, Lit query, Lit ''\<newline>\<newline>'']
      in case (case map_of context ''code_interpreter_data'' of
                 None \<Rightarrow> Inr prompt0
               | Some ci_data \<Rightarrow> add_analysis_results ci_data prompt0) of
           Inl e \<Rightarrow> Inl e
         | Inr prompt1 \<Rightarrow>
             (case (case map_of context ''visualization_data'' of
                      None \<Rightarrow> Inr prompt1
                    | Some viz_data \<Rightarrow> add_visualizations viz_data prompt1) of
                Inl e \<Rightarrow> Inl e
              | Inr prompt2 \<Rightarrow> Inr (prompt2 @ [Lit presentation_instructions])))"

text \<open>
  The model call, the structuring of the report (\<open>_structure_presentation\<close>, which no
  property below depends on) and the clock are parameters. \<open>process\<close> builds the prompt
  before its \<open>try\<close>: an exception raised there leaves \<open>process\<close> (\<open>Inl\<close>).
\<close>

record report_env =
  renv_generate_content :: "prompt \<Rightarrow> exn + string"
  renv_structure_presentation :: "string \<Rightarrow> jval dict \<Rightarrow> exn + jval"
  renv_now :: string

definition presentation_failure :: "exn \<Rightarrow> agent_result" where
  "presentation_failure e =
     \<lparr>success = False, data = ErrorData (exn_str e) None,
      message = ''Error creating presentation: '' @ exn_str e,
      agent_name = ''PresentationAgent'', next_agent = None, metadata = []\<rparr>"

definition PresentationAgent_process ::
  "report_env \<Rightarrow> string \<Rightarrow> jval dict \<Rightarrow> exn + agent_result" where
  "PresentationAgent_process env query context =
     (case presentation_build_prompt query context of
        Inl e \<Rightarrow> Inl e
      | Inr prompt \<Rightarrow>
          (case renv_generate_content env prompt of
             Inl e \<Rightarrow> Inr (presentation_failure e)
           | Inr response_text \<Rightarrow>
               (case renv_structure_presentation env response_text context of
                  Inl e \<Rightarrow> Inr (presentation_failure e)
                | Inr presentation \<Rightarrow>
                    Inr \<lparr>success = True,
                         data = PresentationData presentation response_text (renv_now env),
                         message = ''Presentation generated successfully'',
                         agent_name = ''PresentationAgent'', next_agent = None,
                         metadata = []\<rparr>)))"

subsection \<open>\<open>AnswerSynthesiserAgent\<close>\<close>

definition synthesis_header :: string where
  "synthesis_header =
     ''You are an answer synthesizer agent. Your role is to create a clear, comprehensive response to the user's query based on the analysis performed by other agents.\<newline>\<newline>User Query: ''"

definition synthesis_instructions :: string where
  "synthesis_instructions =
     ''\<newline>Instructions:\<newline>1. Synthesize a clear, concise answer to the user's query\<newline>2. Use markdown formatting for better readability\<newline>3. Include key findings, insights, and statistics\<newline>4. Structure your response with proper headings and bullet points\<newline>5. If there are numerical results, present them clearly\<newline>6. Be conversational but professional\<newline>\<newline>Provide your synthesized answer in markdown format:\<newline>''"

definition assistant_header :: string where
  "assistant_header =
     ''You are a helpful AI assistant. Answer the user's question clearly and comprehensively.\<newline>\<newline>User Query: ''"

definition assistant_instructions :: string where
  "assistant_instructions =
     ''\<newline>\<newline>Instructions:\<newline>1. Provide a clear, accurate answer to the question\<newline>2. Use markdown formatting for better readability\<newline>3. Include examples if helpful\<newline>4. Structure your response with headings and bullet points where appropriate\<newline>5. Be conversational but professional\<newline>6. If the question is about data analysis, explain that data should be uploaded first\<newline>\<newline>Provide your answer in markdown format:\<newline>''"

text \<open>\<open>context.get(key)\<close> on the context dict: \<open>None\<close> for a missing key.\<close>

definition context_get :: "jval dict \<Rightarrow> string \<Rightarrow> jval" where
  "context_get context key = (case map_of context key of None \<Rightarrow> JNone | Some v \<Rightarrow> v)"

text \<open>The block under \<open>if has_code_results\<close>.\<close>

definition add_code_results :: "jval \<Rightarrow> prompt \<Rightarrow> exn + prompt" where
  "add_code_results ci_data prompt0 =
     (let prompt1 = prompt0 @ [Lit ''\<newline>### Code Analysis Results:\<newline>'']
      in case py_get ci_data ''analysis'' JNone of
           Inl e \<Rightarrow> Inl e
         | Inr analysis \<Rightarrow>
             (case (if py_truthy analysis then
                      (case py_getitem ci_data ''analysis'' of
                         Inl e \<Rightarrow> Inl e
                       | Inr a \<Rightarrow> Inr (prompt1 @ [Fmt a, Lit ''\<newline>\<newline>'']))
                    else Inr prompt1) of
                Inl e \<Rightarrow> Inl e
              | Inr prompt2 \<Rightarrow>
                  (case py_get ci_data ''results'' JNone of
                     Inl e \<Rightarrow> Inl e
                   | Inr results \<Rightarrow>
                       if py_truthy results then
                         (case py_getitem ci_data ''results'' of
                            Inl e \<Rightarrow> Inl e
                          | Inr rs \<Rightarrow>
                              (case py_iter rs of
                                 Inl e \<Rightarrow> Inl e
                               | Inr items \<Rightarrow>
                                   results_output items
                                     (prompt2 @ [Lit ''Execution Output:\<newline>''])))
                       else Inr prompt2)))"

text \<open>The block under \<open>if has_viz\<close>.\<close>

definition add_viz_count :: "jval \<Rightarrow> prompt \<Rightarrow> exn + prompt" where
  "add_viz_count viz_data prompt0 =
     (case py_get viz_data ''visualization_count'' (JInt 0) of
        Inl e \<Rightarrow> Inl e
      | Inr viz_count \<Rightarrow>
          (case py_gt_zero viz_count of
             Inl e \<Rightarrow> Inl e
           | Inr positive \<Rightarrow>
               if positive then
                 Inr (prompt0 @ [Lit ''\<newline>### Visualizations:\<newline>'', Fmt viz_count,
                                 Lit '' visualizations were created.\<newline>''])
               else Inr prompt0))"

text \<open>The block under \<open>if has_presentation\<close>.\<close>

definition add_report :: "jval \<Rightarrow> prompt \<Rightarrow> exn + prompt" where
  "add_report pres_data prompt0 =
     (case py_get pres_data ''presentation'' JNone of
        Inl e \<Rightarrow> Inl e
      | Inr presentation \<Rightarrow>
          if py_truthy presentation then
            (case py_getitem pres_data ''presentation'' of
               Inl e \<Rightarrow> Inl e
             | Inr p \<Rightarrow>
                 (case py_get p ''content'' (JStr []) of
                    Inl e \<Rightarrow> Inl e
                  | Inr content \<Rightarrow>
                      Inr (prompt0 @ [Lit ''\<newline>### Report:\<newline>'', Fmt content, Lit ''\<newline>''])))
          else Inr prompt0)"

definition synthesis_build_prompt :: "string \<Rightarrow> jval dict \<Rightarrow> exn + prompt" where
  "synthesis_build_prompt query context =
     (let has_code_results = (context_get context ''codeinterpreter_data'' \<noteq> JNone);
          has_viz = (context_get context ''visualizationagent_data'' \<noteq> JNone);
          has_presentation = (context_get context ''presentationagent_data'' \<noteq> JNone)
      in if has_code_results \<or> has_viz \<or> has_presentation then
           (let prompt0 = [Lit synthesis_header, Lit query, Lit ''\<newline>\<newline>'']
            in case (if has_code_results
                     then add_code_results (context_get context ''codeinterpreter_data'') prompt0
                     else Inr prompt0) of
                 Inl e \<Rightarrow> Inl e
               | Inr prompt1 \<Rightarrow>
                   (case (if has_viz
                          then add_viz_count (context_get context ''visualizationagent_data'')
                                 prompt1
                          else Inr prompt1) of
                      Inl e \<Rightarrow> Inl e
                    | Inr prompt2 \<Rightarrow>
                        (case (if has_presentation
                               then add_report (context_get context ''presentationagent_data'')
                                      prompt2
                               else Inr prompt2) of
                           Inl e \<Rightarrow> Inl e
                         | Inr prompt3 \<Rightarrow> Inr (prompt3 @ [Lit synthesis_instructions]))))
         else Inr [Lit assistant_header, Lit query, Lit assistant_instructions])"

definition synthesis_failure :: "exn \<Rightarrow> agent_result" where
  "synthesis_failure e =
     \<lparr>success = False, data = ErrorData (exn_str e) None,
      message = ''Error synthesizing answer: '' @ exn_str e,
      agent_name = ''AnswerSynthesiser'', next_agent = None, metadata = []\<rparr>"

text \<open>
  Here the prompt is built inside the \<open>try\<close>, so every exception becomes the failure
  envelope. The model call is a parameter.
\<close>

definition AnswerSynthesiserAgent_process ::
  "(prompt \<Rightarrow> exn + string) \<Rightarrow> string \<Rightarrow> jval dict \<Rightarrow> exn + agent_result" where
  "AnswerSynthesiserAgent_process generate_content query context =
     (case synthesis_build_prompt query context of
        Inl e \<Rightarrow> Inr (synthesis_failure e)
      | Inr prompt \<Rightarrow>
          (case generate_content prompt of
             Inl e \<Rightarrow> Inr (synthesis_failure e)
           | Inr response_text \<Rightarrow>
               Inr \<lparr>success = True,
                    data = AnswerData response_text response_text query
                             (py_truthy (context_get context ''codeinterpreter_data'') \<or>
                              py_truthy (context_get context ''visualizationagent_data'') \<or>
                              py_truthy (context_get context ''presentationagent_data'')),
                    message = ''Answer synthesized successfully'',
                    agent_name = ''AnswerSynthesiser'', next_agent = None, metadata = []\<rparr>))"

text \<open>Example environment for the closed instances below.\<close>

definition report_model :: report_env where
  "report_model =
     \<lparr>renv_generate_content = (\<lambda>prompt. Inr ''# Report''),
      renv_structure_presentation = (\<lambda>response_text context. Inr (JDict [(''title'', JStr ''Report'')])),
      renv_now = ''2025-01-01T00:00:00''\<rparr>"

section \<open>Properties of the extractor\<close>

lemma split_nl_nonempty: "split_nl s \<noteq> []"
  by (induction s) (auto split: list.splits)

lemma split_nl_no_newline: "newline \<notin> set l \<Longrightarrow> split_nl l = [l]"
  by (induction l) auto

lemma split_nl_append_line:
  "newline \<notin> set l \<Longrightarrow> split_nl (l @ newline # s) = l # split_nl s"
  by (induction l) auto

lemma split_join_nl:
  "list_all (\<lambda>l. newline \<notin> set l) ls \<Longrightarrow> ls \<noteq> [] \<Longrightarrow> split_nl (join_nl ls) = ls"
proof (induction ls rule: join_nl.induct)
  case 1
  then show ?case by simp
next
  case (2 l)
  then show ?case by (simp add: split_nl_no_newline)
next
  case (3 l v va)
  then show ?case by (simp add: split_nl_append_line)
qed

lemma close_not_open: "is_close l \<Longrightarrow> \<not> is_open l"
  by (simp add: is_close_def is_open_def startswith_def fence_open_def fence_close_def)

lemma extract_step_open: "is_open l \<Longrightarrow> extract_step (acc, b, cur) l = (acc, True, [])"
  by (simp add: is_open_def)

lemma extract_step_close:
  "is_close l \<Longrightarrow> extract_step (acc, True, cur) l =
     (if cur \<noteq> [] then acc @ [join_nl cur] else acc, False, cur)"
  using close_not_open [of l] by (simp add: is_open_def is_close_def)

lemma extract_step_plain:
  "plain_line l \<Longrightarrow> extract_step (acc, True, cur) l = (acc, True, cur @ [l])"
  by (simp add: plain_line_def is_open_def is_close_def)

lemma extract_step_outside:
  "\<not> is_open l \<Longrightarrow> extract_step (acc, False, cur) l = (acc, False, cur)"
  by (simp add: is_open_def)

lemma extract_step_keeps_blocks:
  "\<not> is_close l \<Longrightarrow> fst (extract_step (acc, b, cur) l) = acc"
  by (simp add: is_close_def)

lemma extract_empty_text: "extract_code_blocks [] = []"
  by (simp add: extract_code_blocks_def strip_def startswith_def fence_open_def fence_close_def)

declare extract_step.simps [simp del]

text \<open>Inside a span, plain lines accumulate in \<open>current_block\<close>.\<close>

lemma extract_body:
  "list_all plain_line body \<Longrightarrow>
     foldl extract_step (acc, True, cur) body = (acc, True, cur @ body)"
  by (induction body arbitrary: cur) (simp_all add: extract_step_plain)

text \<open>
  One well-formed segment, entered outside a span, leaves the loop outside a span and
  has added that segment's scripts.
\<close>

lemma extract_segment:
  assumes "wf_segment seg"
  shows "\<exists>cur'. foldl extract_step (acc, False, cur) (seg_lines seg) =
           (acc @ seg_scripts seg, False, cur')"
proof (cases seg)
  case (Prose l)
  with assms show ?thesis by (simp add: extract_step_outside)
next
  case (Span opn body cls)
  with assms have o: "is_open opn" and b: "list_all plain_line body" and c: "is_close cls"
    by simp_all
  have "foldl extract_step (acc, False, cur) (opn # body @ [cls]) =
          extract_step (foldl extract_step (acc, True, []) body) cls"
    by (simp add: extract_step_open [OF o])
  also have "\<dots> = extract_step (acc, True, body) cls"
    by (simp add: extract_body [OF b])
  also have "\<dots> = (if body \<noteq> [] then acc @ [join_nl body] else acc, False, body)"
    by (rule extract_step_close [OF c])
  finally show ?thesis using Span by auto
qed

lemma extract_segments:
  "list_all wf_segment segs \<Longrightarrow>
     \<exists>cur'. foldl extract_step (acc, False, cur) (concat (map seg_lines segs)) =
        (acc @ concat (map seg_scripts segs), False, cur')"
proof (induction segs arbitrary: acc cur)
  case Nil
  then show ?case by simp
next
  case (Cons seg segs)
  then have w: "wf_segment seg" and ws: "list_all wf_segment segs" by simp_all
  from extract_segment [OF w] obtain c1 where
    s1: "foldl extract_step (acc, False, cur) (seg_lines seg) = (acc @ seg_scripts seg, False, c1)"
    by blast
  from Cons.IH [OF ws] obtain c2 where
    s2: "foldl extract_step (acc @ seg_scripts seg, False, c1) (concat (map seg_lines segs)) =
           ((acc @ seg_scripts seg) @ concat (map seg_scripts segs), False, c2)"
    by blast
  show ?case using s1 s2 by simp
qed

text \<open>Lines that are not a closing fence never add a script, whatever the state.\<close>

lemma extract_no_close:
  "list_all (\<lambda>l. \<not> is_close l) ls \<Longrightarrow> fst (foldl extract_step (acc, b, cur) ls) = acc"
proof (induction ls arbitrary: b cur)
  case Nil
  then show ?case by simp
next
  case (Cons l ls)
  then have nc: "\<not> is_close l" and rest: "list_all (\<lambda>l. \<not> is_close l) ls" by simp_all
  obtain a' b' c' where st: "extract_step (acc, b, cur) l = (a', b', c')"
    by (cases "extract_step (acc, b, cur) l")
  with extract_step_keeps_blocks [OF nc, of acc b cur] have "a' = acc" by simp
  with st Cons.IH [OF rest, of b' c'] show ?case by simp
qed

lemma extract_unterminated:
  "unterminated t \<Longrightarrow> fst (foldl extract_step (acc, False, cur) t) = acc"
proof (cases t)
  case Nil
  then show ?thesis by simp
next
  case (Cons opn rest)
  assume "unterminated t"
  with Cons have o: "is_open opn" and r: "list_all (\<lambda>l. \<not> is_close l) rest" by simp_all
  show ?thesis using Cons extract_no_close [OF r, of acc True "[]"]
    by (simp add: extract_step_open [OF o])
qed

lemma extract_lines:
  assumes "list_all wf_segment segs" "unterminated t"
  shows "fst (foldl extract_step ([], False, []) (doc_lines segs t)) =
           concat (map seg_scripts segs)"
proof -
  from extract_segments [OF assms(1), of "[]" "[]"] obtain c where
    "foldl extract_step ([], False, []) (concat (map seg_lines segs)) =
       (concat (map seg_scripts segs), False, c)" by auto
  then show ?thesis
    using extract_unterminated [OF assms(2)] by (simp add: doc_lines_def)
qed

lemma extract_doc:
  assumes "wf_doc segs t"
  shows "extract_code_blocks (join_nl (doc_lines segs t)) = concat (map seg_scripts segs)"
proof (cases "doc_lines segs t = []")
  case True
  then have "segs = []"
    by (cases segs; cases "hd segs") (auto simp: doc_lines_def)
  with True show ?thesis by (simp add: extract_empty_text)
next
  case False
  from assms have "list_all (\<lambda>l. newline \<notin> set l) (doc_lines segs t)"
    by (simp add: wf_doc_def)
  from split_join_nl [OF this False] show ?thesis
    using extract_lines [of segs t] assms by (simp add: extract_code_blocks_def wf_doc_def)
qed

lemma length_seg_scripts:
  "length (concat (map seg_scripts segs)) = length (filter has_body segs)"
proof (induction segs)
  case Nil
  then show ?case by simp
next
  case (Cons seg segs)
  then show ?case by (cases seg) simp_all
qed

text \<open>
  Claim C7, as the code has it. A completion text is laid out as prose lines and
  well-formed fenced spans (opening line, plain body lines, closing line), optionally
  followed by a span that is opened and never closed. The extractor returns, in source
  order, the body of every span that has at least one body line, its lines joined by
  newlines; a span with no body line yields no script (the guard
  \<open>if current_block\<close>), and neither does prose or the unterminated span. So the
  number of scripts is the number of spans with a body, not the number of spans.
\<close>

theorem extract_code_blocks_spans:
  assumes "wf_doc segs open_tail"
  shows "extract_code_blocks (join_nl (doc_lines segs open_tail)) =
           concat (map seg_scripts segs) \<and>
         length (extract_code_blocks (join_nl (doc_lines segs open_tail))) =
           length (filter has_body segs)"
  using extract_doc [OF assms] length_seg_scripts [of segs] by simp

theorem extract_code_blocks_spans_witness:
  "wf_doc [Prose ''Here is the code:'',
           Span ''```python'' [''x = 1'', ''print(x)''] ''```'',
           Prose ''and an empty one'',
           Span ''  ```python'' [] ''```  '',
           Span ''```python3'' [''y = 2''] ''```'']
          [''```python'', ''z = 3''] \<and>
   extract_code_blocks
     ''Here is the code:\<newline>```python\<newline>x = 1\<newline>print(x)\<newline>```\<newline>and an empty one\<newline>  ```python\<newline>```  \<newline>```python3\<newline>y = 2\<newline>```\<newline>```python\<newline>z = 3'' =
     [''x = 1\<newline>print(x)'', ''y = 2'']"
proof -
  have wf: "wf_doc [Prose ''Here is the code:'',
           Span ''```python'' [''x = 1'', ''print(x)''] ''```'',
           Prose ''and an empty one'',
           Span ''  ```python'' [] ''```  '',
           Span ''```python3'' [''y = 2''] ''```'']
          [''```python'', ''z = 3'']"
    by (simp add: wf_doc_def doc_lines_def is_open_def is_close_def plain_line_def strip_def
        isspace_def startswith_def fence_open_def fence_close_def newline_def)
  from extract_code_blocks_spans [OF wf] show ?thesis
    using wf by (simp add: doc_lines_def newline_def)
qed

text \<open>
  Claim C7 as stated fails: the text below is exactly one well-formed span (an opening
  fence line followed by the closing fence line), and the extractor yields no script.
\<close>

theorem extract_code_blocks_empty_span_counterexample:
  "wf_doc [Span ''```python'' [] ''```''] [] \<and>
   length (filter is_span [Span ''```python'' [] ''```'']) = 1 \<and>
   join_nl (doc_lines [Span ''```python'' [] ''```''] []) = ''```python\<newline>```'' \<and>
   extract_code_blocks ''```python\<newline>```'' = []"
  by (simp add: wf_doc_def doc_lines_def is_open_def is_close_def strip_def isspace_def
      startswith_def fence_open_def fence_close_def newline_def extract_code_blocks_def
      extract_step.simps)

section \<open>Properties of the sandbox\<close>

text \<open>One round of the harvesting loop, read as maps.\<close>

lemma harvest_step_vars:
  "map_of (fst (harvest_step h (k, v) (vars, dfs))) =
     (if harvestable_key k then
        (case harvested_value h v of None \<Rightarrow> map_of vars | Some j \<Rightarrow> (map_of vars)(k \<mapsto> j))
      else map_of vars)"
  by (cases v) (auto simp: harvestable_key_def AList.update_conv' elim: isinstance_plain.elims)

lemma harvest_step_dfs:
  "map_of (snd (harvest_step h (k, v) (vars, dfs))) =
     (if harvestable_key k then
        (case harvested_table v of None \<Rightarrow> map_of dfs | Some a \<Rightarrow> (map_of dfs)(k \<mapsto> a))
      else map_of dfs)"
  by (cases v) (auto simp: harvestable_key_def AList.update_conv')

lemma harvest_step_distinct:
  "distinct (map fst dfs) \<Longrightarrow> distinct (map fst (snd (harvest_step h kv (vars, dfs))))"
  by (cases kv; cases "snd kv") (auto simp: AList.distinct_update)

declare harvest_step.simps [simp del]

text \<open>The whole loop: the harvested map and the registry it leaves.\<close>

lemma harvest_fold_vars:
  "distinct (map fst ns) \<Longrightarrow>
   map_of (fst (fold (harvest_step h) ns (vars, dfs))) key =
     (case harvest_spec h ns key of None \<Rightarrow> map_of vars key | Some j \<Rightarrow> Some j)"
proof (induction ns arbitrary: vars dfs)
  case Nil
  then show ?case by (simp add: harvest_spec_def)
next
  case (Cons kv ns)
  obtain k v where kv: "kv = (k, v)" by (cases kv)
  obtain vars1 dfs1 where st: "harvest_step h (k, v) (vars, dfs) = (vars1, dfs1)"
    by (cases "harvest_step h (k, v) (vars, dfs)")
  from Cons.prems kv have d: "distinct (map fst ns)" and fresh: "k \<notin> fst ` set ns" by auto
  from fresh have none: "map_of ns k = None" by (simp add: map_of_eq_None_iff)
  have v1: "map_of vars1 =
     (if harvestable_key k then
        (case harvested_value h v of None \<Rightarrow> map_of vars | Some j \<Rightarrow> (map_of vars)(k \<mapsto> j))
      else map_of vars)"
    using harvest_step_vars [of h k v vars dfs] st by simp
  have "map_of (fst (fold (harvest_step h) (kv # ns) (vars, dfs))) key =
          map_of (fst (fold (harvest_step h) ns (vars1, dfs1))) key"
    using kv st by simp
  also have "\<dots> = (case harvest_spec h ns key of None \<Rightarrow> map_of vars1 key | Some j \<Rightarrow> Some j)"
    by (rule Cons.IH [OF d])
  also have "\<dots> = (case harvest_spec h (kv # ns) key of None \<Rightarrow> map_of vars key | Some j \<Rightarrow> Some j)"
  proof (cases "key = k")
    case True
    with none have "harvest_spec h ns key = None" by (simp add: harvest_spec_def)
    with True kv v1 show ?thesis
      by (auto simp: harvest_spec_def split: option.splits)
  next
    case False
    with kv have "harvest_spec h (kv # ns) key = harvest_spec h ns key"
      by (simp add: harvest_spec_def)
    moreover from False v1 have "map_of vars1 key = map_of vars key"
      by (auto split: option.splits)
    ultimately show ?thesis by (simp split: option.splits)
  qed
  finally show ?case .
qed

lemma harvest_fold_dfs:
  "distinct (map fst ns) \<Longrightarrow>
   map_of (snd (fold (harvest_step h) ns (vars, dfs))) key = registry_spec dfs ns key"
proof (induction ns arbitrary: vars dfs)
  case Nil
  then show ?case by (simp add: registry_spec_def)
next
  case (Cons kv ns)
  obtain k v where kv: "kv = (k, v)" by (cases kv)
  obtain vars1 dfs1 where st: "harvest_step h (k, v) (vars, dfs) = (vars1, dfs1)"
    by (cases "harvest_step h (k, v) (vars, dfs)")
  from Cons.prems kv have d: "distinct (map fst ns)" and fresh: "k \<notin> fst ` set ns" by auto
  from fresh have none: "map_of ns k = None" by (simp add: map_of_eq_None_iff)
  have d1: "map_of dfs1 =
     (if harvestable_key k then
        (case harvested_table v of None \<Rightarrow> map_of dfs | Some a \<Rightarrow> (map_of dfs)(k \<mapsto> a))
      else map_of dfs)"
    using harvest_step_dfs [of h k v vars dfs] st by simp
  have "map_of (snd (fold (harvest_step h) (kv # ns) (vars, dfs))) key =
          map_of (snd (fold (harvest_step h) ns (vars1, dfs1))) key"
    using kv st by simp
  also have "\<dots> = registry_spec dfs1 ns key"
    by (rule Cons.IH [OF d])
  also have "\<dots> = registry_spec dfs (kv # ns) key"
  proof (cases "key = k")
    case True
    with none kv d1 show ?thesis
      by (auto simp: registry_spec_def split: option.splits)
  next
    case False
    with kv d1 show ?thesis
      by (auto simp: registry_spec_def split: option.splits)
  qed
  finally show ?case .
qed

lemma harvest_fold_distinct:
  "distinct (map fst dfs) \<Longrightarrow>
   distinct (map fst (snd (fold (harvest_step h) ns (vars, dfs))))"
proof (induction ns arbitrary: vars dfs)
  case Nil
  then show ?case by simp
next
  case (Cons kv ns)
  obtain vars1 dfs1 where st: "harvest_step h kv (vars, dfs) = (vars1, dfs1)"
    by (cases "harvest_step h kv (vars, dfs)")
  with harvest_step_distinct [OF Cons.prems, of h kv vars] have "distinct (map fst dfs1)" by simp
  from Cons.IH [OF this] st show ?case by simp
qed

lemma map_of_dict_items:
  "map_of (foldl (\<lambda>d (k, v). AList.update k v d) d kvs) = map_of d ++ map_of (rev kvs)"
proof (induction kvs arbitrary: d)
  case Nil
  then show ?case by simp
next
  case (Cons kv kvs)
  obtain k v where kv: "kv = (k, v)" by (cases kv)
  show ?case using Cons.IH [of "AList.update k v d"] kv
    by (simp add: AList.update_conv' map_add_upd_left fun_eq_iff map_add_def split: option.splits)
qed

lemma map_of_rev_distinct:
  "distinct (map fst xs) \<Longrightarrow> map_of (rev xs) = map_of xs"
  by (subst map_of_inject_set) (simp_all add: rev_map [symmetric] del: rev_map)

lemma exec_globals_table:
  assumes "distinct (map fst dfs)" "map_of dfs key = Some df"
  shows "map_of (exec_globals dfs) key = Some (PDataFrame df)"
proof -
  let ?items = "map (\<lambda>(name, df). (name, PDataFrame df)) dfs"
  have fst_items: "map fst ?items = map fst dfs" by (induction dfs) auto
  have look: "map_of ?items key = Some (PDataFrame df)"
    using assms(2) by (induction dfs) (auto split: if_splits)
  have "distinct (map fst ?items)"
    using assms(1) by (simp only: fst_items)
  then have "map_of (rev ?items) = map_of ?items"
    by (rule map_of_rev_distinct)
  with look show ?thesis
    by (simp add: exec_globals_def dict_of_items_def map_of_dict_items map_add_def)
qed


lemma str_nat_digit: "n < 10 \<Longrightarrow> str_nat n = [digit_char n]"
  by (simp add: str_nat.simps)


lemma execute_code_returned:
  assumes "raised (exec code (exec_globals dataframes) h) = None"
  shows "sr_success (fst (execute_code exec format_exc code dataframes h)) \<and>
         sr_code (fst (execute_code exec format_exc code dataframes h)) = code"
  using assms by (simp add: execute_code_def Let_def split: prod.splits)

text \<open>
  Claim C1, as the code has it. When the script returns, the sandbox scans the whole
  final namespace, the tables it was started with included: a binding is harvested iff
  its name does not begin with an underscore and is not \<open>pd\<close> or \<open>np\<close> (the only
  initial bindings left out) and its value is of a harvested kind. In priority order:
  plain data (\<open>int\<close>, \<open>float\<close>, \<open>str\<close>, \<open>bool\<close>, \<open>list\<close>, \<open>dict\<close>) is captured by
  value; a table is captured as the text \<open>DataFrame(rows, columns)\<close> and written into
  the registry under its name, so that the namespace of the next script run against
  that registry binds the name to the same table; an array is captured as the text
  \<open>Array(shape)\<close> only; any other value (and \<open>None\<close>) is absent from the harvested
  map. Namespace and registry are Python dicts: their keys are distinct.
\<close>

theorem execute_code_harvest:
  assumes run: "out = exec code (exec_globals dataframes) h"
    and ok: "raised out = None"
    and ns: "distinct (map fst (ns_after out))"
    and reg: "distinct (map fst dataframes)"
    and res: "execute_code exec format_exc code dataframes h = (r, dataframes', h')"
  shows "sr_success r \<and> sr_error r = None \<and> sr_output r = stdout_text out \<and>
         h' = heap_after out \<and>
         (\<forall>key. map_of (sr_variables r) key = harvest_spec h' (ns_after out) key) \<and>
         (\<forall>key. map_of dataframes' key = registry_spec dataframes (ns_after out) key) \<and>
         (\<forall>key df. harvestable_key key \<and> map_of (ns_after out) key = Some (PDataFrame df) \<longrightarrow>
            map_of (sr_variables r) key = Some (JStr (''DataFrame'' @ str_tuple (shape (h' df)))) \<and>
            table_of dataframes' h' key = Some (h' df) \<and>
            map_of (exec_globals dataframes') key = Some (PDataFrame df))"
proof -
  obtain vars dfs where f: "fold (harvest_step (heap_after out)) (ns_after out) ([], dataframes) = (vars, dfs)"
    by (cases "fold (harvest_step (heap_after out)) (ns_after out) ([], dataframes)")
  from res run ok f have r: "r = \<lparr>sr_code = code, sr_success = True, sr_output = stdout_text out,
        sr_error = None, sr_variables = vars, sr_traceback = None\<rparr>"
    and d: "dataframes' = dfs" and h: "h' = heap_after out"
    by (simp_all add: execute_code_def Let_def)
  have vars: "map_of vars key = harvest_spec h' (ns_after out) key" for key
    using harvest_fold_vars [OF ns, of "heap_after out" "[]" dataframes key] f h
    by (simp split: option.splits)
  have dfs: "map_of dfs key = registry_spec dataframes (ns_after out) key" for key
    using harvest_fold_dfs [OF ns, of "heap_after out" "[]" dataframes key] f by simp
  have dist: "distinct (map fst dfs)"
    using harvest_fold_distinct [OF reg, of "heap_after out" "ns_after out" "[]"] f by simp
  have tbl: "map_of vars key = Some (JStr (''DataFrame'' @ str_tuple (shape (h' df)))) \<and>
            table_of dfs h' key = Some (h' df) \<and>
            map_of (exec_globals dfs) key = Some (PDataFrame df)"
    if "harvestable_key key" "map_of (ns_after out) key = Some (PDataFrame df)" for key df
  proof -
    from that have "map_of vars key = Some (JStr (''DataFrame'' @ str_tuple (shape (h' df))))"
      by (simp add: vars harvest_spec_def)
    moreover from that have look: "map_of dfs key = Some df"
      by (simp add: dfs registry_spec_def)
    moreover from look have "table_of dfs h' key = Some (h' df)"
      by (simp add: table_of_def)
    moreover from exec_globals_table [OF dist look]
    have "map_of (exec_globals dfs) key = Some (PDataFrame df)" .
    ultimately show ?thesis by simp
  qed
  show ?thesis using r d h vars dfs tbl by simp
qed

lemma exec_globals_sales: "exec_globals [(''sales'', 0)] =
   [(''pd'', PObject ''pd''), (''np'', PObject ''np''), (''sales'', PDataFrame 0)]"
  by (simp add: exec_globals_def dict_of_items_def)

lemma run_analysis_example:
  "execute_code analysis_interpreter no_traceback ''total = 30'' [(''sales'', 0)] sales_heap =
     (\<lparr>sr_code = ''total = 30'', sr_success = True, sr_output = ''30\<newline>'', sr_error = None,
       sr_variables = [(''sales'', JStr ''DataFrame(2, 2)''), (''total'', JInt 30),
                       (''top'', JStr ''DataFrame(1, 2)''), (''arr'', JStr ''Array(2,)'')],
       sr_traceback = None\<rparr>,
      [(''sales'', 0), (''top'', 1)], sales_heap(1 := top_table))"
  by (simp add: execute_code_def exec_globals_sales analysis_interpreter_def harvest_step.simps
      startswith_def str_tuple_def str_nat_digit digit_char_def shape_def sales_heap_def
      sales_table_def top_table_def)


theorem execute_code_harvest_witness:
  "raised (analysis_interpreter ''total = 30'' (exec_globals [(''sales'', 0)]) sales_heap) = None \<and>
   distinct (map fst (ns_after
     (analysis_interpreter ''total = 30'' (exec_globals [(''sales'', 0)]) sales_heap))) \<and>
   sr_success (fst (execute_code analysis_interpreter no_traceback ''total = 30''
     [(''sales'', 0)] sales_heap)) \<and>
   map_of (sr_variables (fst (execute_code analysis_interpreter no_traceback ''total = 30''
     [(''sales'', 0)] sales_heap))) ''top'' = Some (JStr ''DataFrame(1, 2)'') \<and>
   map_of (sr_variables (fst (execute_code analysis_interpreter no_traceback ''total = 30''
     [(''sales'', 0)] sales_heap))) ''os'' = None \<and>
   map_of (exec_globals (fst (snd (execute_code analysis_interpreter no_traceback ''total = 30''
     [(''sales'', 0)] sales_heap)))) ''top'' = Some (PDataFrame 1)"
proof -
  let ?out = "analysis_interpreter ''total = 30'' (exec_globals [(''sales'', 0)]) sales_heap"
  have ok: "raised ?out = None"
    by (simp add: analysis_interpreter_def)
  have ns: "distinct (map fst (ns_after ?out))"
    by (simp add: analysis_interpreter_def exec_globals_sales)
  have reg: "distinct (map fst [(''sales'', 0::nat)])"
    by simp
  have top: "harvestable_key ''top'' \<and> map_of (ns_after ?out) ''top'' = Some (PDataFrame 1)"
    by (simp add: harvestable_key_def startswith_def analysis_interpreter_def exec_globals_sales)
  have os: "harvest_spec (sales_heap(1 := top_table)) (ns_after ?out) ''os'' = None"
    by (simp add: harvest_spec_def harvestable_key_def startswith_def analysis_interpreter_def
        exec_globals_sales)
  have shp: "str_tuple (shape top_table) = ''(1, 2)''"
    by (simp add: str_tuple_def shape_def top_table_def str_nat_digit digit_char_def)
  from execute_code_harvest [OF refl ok ns reg run_analysis_example] top os shp ok ns
  show ?thesis
    by (simp add: run_analysis_example)
qed

text \<open>
  Claim C1 as stated fails: the script \<open>pass\<close> introduces no binding, and the table
  \<open>sales\<close> of the initial binding set is harvested all the same.
\<close>

theorem execute_code_harvests_initial_table_counterexample:
  "map_of (exec_globals [(''sales'', 0)]) ''sales'' = Some (PDataFrame 0) \<and>
   ns_after (pass_interpreter ''pass'' (exec_globals [(''sales'', 0)]) sales_heap) =
     exec_globals [(''sales'', 0)] \<and>
   sr_success (fst (execute_code pass_interpreter no_traceback ''pass'' [(''sales'', 0)] sales_heap)) \<and>
   map_of (sr_variables
     (fst (execute_code pass_interpreter no_traceback ''pass'' [(''sales'', 0)] sales_heap)))
     ''sales'' = Some (JStr ''DataFrame(2, 2)'')"
  by (simp add: execute_code_def exec_globals_sales pass_interpreter_def harvest_step.simps
      startswith_def str_tuple_def str_nat_digit digit_char_def shape_def sales_heap_def
      sales_table_def)







section \<open>Properties of the plotting sandbox\<close>

text \<open>Base64: decoding undoes encoding, for every byte string.\<close>


lemma byte_bound: "unat (a :: byte) < 256"
  using unsigned_less [of a, where ?'a = nat] by simp

lemma hi_lo_div: "(b::nat) < m \<Longrightarrow> (a * m + b) div m = a"
  by simp

lemma hi_lo_mod: "(b::nat) < m \<Longrightarrow> (a * m + b) mod m = b"
  by simp

lemma hi_lo_bound: "(a::nat) < k \<Longrightarrow> b < m \<Longrightarrow> a * m + b < k * m"
proof -
  assume a: "a < k" and b: "b < m"
  then have "a * m + b < a * m + m" by simp
  also have "\<dots> = Suc a * m" by simp
  also from a have "\<dots> \<le> k * m" by (intro mult_le_mono1) simp
  finally show ?thesis .
qed

lemma sextets:
  fixes x y z :: nat
  assumes "x < 256" "y < 256" "z < 256"
  shows "x div 4 < 64" "x mod 4 * 16 < 64" "x mod 4 * 16 + y div 16 < 64"
    "y mod 16 * 4 < 64" "y mod 16 * 4 + z div 64 < 64" "z mod 64 < 64"
proof -
  from assms have y16: "y div 16 < 16" and z64: "z div 64 < 4"
    by (simp_all add: div_less_iff_less_mult)
  show "x div 4 < 64" using assms by (simp add: div_less_iff_less_mult)
  show "x mod 4 * 16 + y div 16 < 64"
    using hi_lo_bound [of "x mod 4" 4 "y div 16" 16] y16 by simp
  show "y mod 16 * 4 + z div 64 < 64"
    using hi_lo_bound [of "y mod 16" 16 "z div 64" 4] z64 by simp
  show "x mod 4 * 16 < 64"
    using hi_lo_bound [of "x mod 4" 4 0 16] by simp
  show "y mod 16 * 4 < 64"
    using hi_lo_bound [of "y mod 16" 16 0 4] by simp
  show "z mod 64 < 64" by simp
qed

lemma regroup:
  fixes x y z :: nat
  assumes "x < 256" "y < 256" "z < 256"
  shows "x div 4 * 4 + (x mod 4 * 16 + y div 16) div 16 = x"
    "x div 4 * 4 + (x mod 4 * 16) div 16 = x"
    "(x mod 4 * 16 + y div 16) mod 16 * 16 + (y mod 16 * 4 + z div 64) div 4 = y"
    "(x mod 4 * 16 + y div 16) mod 16 * 16 + (y mod 16 * 4) div 4 = y"
    "(y mod 16 * 4 + z div 64) mod 4 * 64 + z mod 64 = z"
proof -
  from assms have y16: "y div 16 < 16" and z64: "z div 64 < 4"
    by (simp_all add: div_less_iff_less_mult)
  have a: "(x mod 4 * 16 + y div 16) div 16 = x mod 4"
    by (rule hi_lo_div [OF y16])
  have b: "(x mod 4 * 16 + y div 16) mod 16 = y div 16"
    by (rule hi_lo_mod [OF y16])
  have c: "(y mod 16 * 4 + z div 64) div 4 = y mod 16"
    by (rule hi_lo_div [OF z64])
  have d: "(y mod 16 * 4 + z div 64) mod 4 = z div 64"
    by (rule hi_lo_mod [OF z64])
  show "x div 4 * 4 + (x mod 4 * 16 + y div 16) div 16 = x"
    unfolding a by simp
  show "x div 4 * 4 + (x mod 4 * 16) div 16 = x"
    by simp
  show "(x mod 4 * 16 + y div 16) mod 16 * 16 + (y mod 16 * 4 + z div 64) div 4 = y"
    unfolding b c by simp
  show "(x mod 4 * 16 + y div 16) mod 16 * 16 + (y mod 16 * 4) div 4 = y"
    unfolding b by simp
  show "(y mod 16 * 4 + z div 64) mod 4 * 64 + z mod 64 = z"
    unfolding d by simp
qed


lemma index_of_nth: "distinct xs \<Longrightarrow> n < length xs \<Longrightarrow> index_of xs (xs ! n) = n"
proof (induction xs arbitrary: n)
  case Nil
  then show ?case by simp
next
  case (Cons y ys)
  show ?case
  proof (cases n)
    case 0
    then show ?thesis by simp
  next
    case (Suc m)
    with Cons.prems have "ys ! m \<in> set ys" "y \<notin> set ys" by auto
    then have "ys ! m \<noteq> y" by auto
    with Suc Cons show ?thesis by simp
  qed
qed

lemma b64_alphabet_distinct: "distinct b64_alphabet"
  unfolding b64_alphabet_def by code_simp

lemma b64_alphabet_length: "length b64_alphabet = 64"
  by (simp add: b64_alphabet_def)

lemma b64_index_char: "n < 64 \<Longrightarrow> b64_index (b64_char n) = n"
  by (simp add: b64_index_def b64_char_def index_of_nth b64_alphabet_distinct b64_alphabet_length)

lemma b64_char_not_pad: "n < 64 \<Longrightarrow> b64_char n \<noteq> CHR ''=''"
proof -
  assume "n < 64"
  then have "b64_alphabet ! n \<in> set b64_alphabet"
    by (simp add: b64_alphabet_length)
  moreover have "CHR ''='' \<notin> set b64_alphabet"
    by (simp add: b64_alphabet_def)
  ultimately show ?thesis by (auto simp: b64_char_def)
qed

lemma byte_of_unat: "of_nat (unat (a :: byte)) = a"
  by simp

lemma decode_quad:
  assumes "i < 64" "j < 64" "k < 64" "l < 64"
  shows "b64decode (b64_char i # b64_char j # b64_char k # b64_char l # rest) =
           of_nat (i * 4 + j div 16) # of_nat (j mod 16 * 16 + k div 4) #
           of_nat (k mod 4 * 64 + l) # b64decode rest"
  using assms by (simp add: b64_index_char b64_char_not_pad)

lemma decode_pad1:
  assumes "i < 64" "j < 64" "k < 64"
  shows "b64decode [b64_char i, b64_char j, b64_char k, CHR ''=''] =
           [of_nat (i * 4 + j div 16), of_nat (j mod 16 * 16 + k div 4)]"
  using assms by (simp add: b64_index_char b64_char_not_pad)

lemma decode_pad2:
  assumes "i < 64" "j < 64"
  shows "b64decode [b64_char i, b64_char j, CHR ''='', CHR ''=''] = [of_nat (i * 4 + j div 16)]"
  using assms by (simp add: b64_index_char b64_char_not_pad)

lemma b64_roundtrip: "b64decode (b64encode bs) = bs"
proof (induction bs rule: b64encode.induct)
  case 1
  then show ?case by simp
next
  case (2 a)
  note s = sextets [OF byte_bound byte_bound byte_bound]
  note r = regroup [OF byte_bound byte_bound byte_bound]
  have "b64decode (b64encode [a]) = [of_nat (unat a div 4 * 4 + unat a mod 4 * 16 div 16)]"
    by (simp only: b64encode.simps decode_pad2 [OF s(1) s(2)])
  also have "\<dots> = [a]" by (simp only: r(2) byte_of_unat)
  finally show ?case .
next
  case (3 a b)
  note s = sextets [OF byte_bound byte_bound byte_bound]
  note r = regroup [OF byte_bound byte_bound byte_bound]
  have "b64decode (b64encode [a, b]) =
          [of_nat (unat a div 4 * 4 + (unat a mod 4 * 16 + unat b div 16) div 16),
           of_nat ((unat a mod 4 * 16 + unat b div 16) mod 16 * 16 + unat b mod 16 * 4 div 4)]"
    by (simp only: b64encode.simps decode_pad1 [OF s(1) s(3) s(4)])
  also have "\<dots> = [a, b]" by (simp only: r(1) r(4) byte_of_unat)
  finally show ?case .
next
  case (4 a b c rest)
  note s = sextets [OF byte_bound byte_bound byte_bound]
  note r = regroup [OF byte_bound byte_bound byte_bound]
  have "b64decode (b64encode (a # b # c # rest)) =
          of_nat (unat a div 4 * 4 + (unat a mod 4 * 16 + unat b div 16) div 16) #
          of_nat ((unat a mod 4 * 16 + unat b div 16) mod 16 * 16 +
                  (unat b mod 16 * 4 + unat c div 64) div 4) #
          of_nat ((unat b mod 16 * 4 + unat c div 64) mod 4 * 64 + unat c mod 64) #
          b64decode (b64encode rest)"
    by (simp only: b64encode.simps append.simps decode_quad [OF s(1) s(3) s(5) s(6)])
  also have "\<dots> = a # b # c # rest"
    by (simp only: r(1) r(3) r(5) byte_of_unat "4.IH")
  finally show ?case .
qed


text \<open>
  Claim C5, as the code has it. For a script that is run (its namespace could be built)
  and returns without raising: if a file is at the designated path afterwards, the
  artifact has \<open>success = True\<close>, its payload decodes to exactly the bytes of that
  file, and the path no longer exists when \<open>_create_visualization\<close> returns. If no
  file is at the path after execution (whether the script returned or raised) the
  artifact has \<open>success = False\<close>, no payload and an error text.
\<close>

theorem create_visualization_round_trip:
  assumes ns: "viz_globals DataFrame context = Inr plot_ns"
    and run: "exec code plot_ns fs = (exc, fs1)"
  shows "(\<forall>img. exc = None \<and> fs1 plot_path = Some img \<longrightarrow>
           (\<exists>r payload.
              create_visualization DataFrame exec code context fs =
                (Inr r, fs1(plot_path := None)) \<and>
              vr_success r \<and> vr_image_base64 r = Some payload \<and> b64decode payload = img \<and>
              snd (create_visualization DataFrame exec code context fs) plot_path = None)) \<and>
         (fs1 plot_path = None \<longrightarrow>
           (\<exists>r msg.
              create_visualization DataFrame exec code context fs = (Inr r, fs1) \<and>
              \<not> vr_success r \<and> vr_image_base64 r = None \<and> vr_error r = Some msg))"
proof (intro conjI allI impI)
  fix img
  assume "exc = None \<and> fs1 plot_path = Some img"
  with ns run have "create_visualization DataFrame exec code context fs =
      (Inr \<lparr>vr_code = code, vr_success = True, vr_image_base64 = Some (b64encode img),
            vr_error = None, vr_description = ''Visualization created successfully''\<rparr>,
       fs1(plot_path := None))"
    by (simp add: create_visualization_def)
  then show "\<exists>r payload.
              create_visualization DataFrame exec code context fs =
                (Inr r, fs1(plot_path := None)) \<and>
              vr_success r \<and> vr_image_base64 r = Some payload \<and> b64decode payload = img \<and>
              snd (create_visualization DataFrame exec code context fs) plot_path = None"
    by (simp add: b64_roundtrip)
next
  assume none: "fs1 plot_path = None"
  show "\<exists>r msg. create_visualization DataFrame exec code context fs = (Inr r, fs1) \<and>
          \<not> vr_success r \<and> vr_image_base64 r = None \<and> vr_error r = Some msg"
  proof (cases exc)
    case None
    with ns run none show ?thesis by (simp add: create_visualization_def)
  next
    case (Some e)
    with ns run show ?thesis by (simp add: create_visualization_def)
  qed
qed

lemma viz_globals_no_frames:
  "viz_globals frame_of_dict [] =
     Inr [(''plt'', VModule ''plt''), (''sns'', VModule ''sns''),
          (''pd'', VModule ''pd''), (''np'', VModule ''np'')]"
  by (simp add: viz_globals_def)

theorem create_visualization_round_trip_witness:
  "viz_globals frame_of_dict [] =
     Inr [(''plt'', VModule ''plt''), (''sns'', VModule ''sns''),
          (''pd'', VModule ''pd''), (''np'', VModule ''np'')] \<and>
   savefig_interpreter ''plt.savefig(path)''
      [(''plt'', VModule ''plt''), (''sns'', VModule ''sns''),
       (''pd'', VModule ''pd''), (''np'', VModule ''np'')] empty_fs =
     (None, empty_fs(plot_path := Some png_bytes)) \<and>
   (\<exists>r payload.
      create_visualization frame_of_dict savefig_interpreter ''plt.savefig(path)'' [] empty_fs =
        (Inr r, (empty_fs(plot_path := Some png_bytes))(plot_path := None)) \<and>
      vr_success r \<and> vr_image_base64 r = Some payload \<and> b64decode payload = png_bytes)"
proof -
  have run: "savefig_interpreter ''plt.savefig(path)''
      [(''plt'', VModule ''plt''), (''sns'', VModule ''sns''),
       (''pd'', VModule ''pd''), (''np'', VModule ''np'')] empty_fs =
     (None, empty_fs(plot_path := Some png_bytes))"
    by (simp add: savefig_interpreter_def)
  have written: "None = (None :: exn option) \<and>
      (empty_fs(plot_path := Some png_bytes)) plot_path = Some png_bytes"
    by simp
  from create_visualization_round_trip [where exec = savefig_interpreter,
      OF viz_globals_no_frames run] written
  have "\<exists>r payload.
      create_visualization frame_of_dict savefig_interpreter ''plt.savefig(path)'' [] empty_fs =
        (Inr r, (empty_fs(plot_path := Some png_bytes))(plot_path := None)) \<and>
      vr_success r \<and> vr_image_base64 r = Some payload \<and> b64decode payload = png_bytes"
    by blast
  with viz_globals_no_frames run show ?thesis by blast
qed

text \<open>
  Claim C5 as stated fails: the script below writes the image and then raises. The
  artifact has \<open>success = False\<close> and no payload, and the file is still at the path
  when the sandbox returns.
\<close>

theorem savefig_then_raise_counterexample:
  "savefig_then_raise ''plt.savefig(path); plt.plot([1, 2], [1])''
      [(''plt'', VModule ''plt''), (''sns'', VModule ''sns''),
       (''pd'', VModule ''pd''), (''np'', VModule ''np'')] empty_fs =
     (Some (Exn ''ValueError'' ''x and y must have same first dimension''),
      empty_fs(plot_path := Some png_bytes)) \<and>
   create_visualization frame_of_dict savefig_then_raise
       ''plt.savefig(path); plt.plot([1, 2], [1])'' [] empty_fs =
     (Inr \<lparr>vr_code = ''plt.savefig(path); plt.plot([1, 2], [1])'', vr_success = False,
           vr_image_base64 = None,
           vr_error = Some ''x and y must have same first dimension'', vr_description = []\<rparr>,
      empty_fs(plot_path := Some png_bytes)) \<and>
   (empty_fs(plot_path := Some png_bytes)) plot_path = Some png_bytes"
  by (simp add: create_visualization_def viz_globals_no_frames savefig_then_raise_def)

section \<open>Properties of the Analysis worker\<close>


lemma startswith_iff: "startswith s p \<longleftrightarrow> (\<exists>post. s = p @ post)"
proof
  assume "startswith s p"
  then have "s = p @ drop (length p) s"
    by (metis append_take_drop_id startswith_def)
  then show "\<exists>post. s = p @ post" ..
next
  assume "\<exists>post. s = p @ post"
  then show "startswith s p" by (auto simp: startswith_def)
qed

lemma contains_str_iff: "contains_str s p \<longleftrightarrow> (\<exists>pre post. s = pre @ p @ post)"
proof (induction s)
  case Nil
  then show ?case by auto
next
  case (Cons c cs)
  show ?case
  proof
    assume "contains_str (c # cs) p"
    then consider "startswith (c # cs) p" | "contains_str cs p" by auto
    then show "\<exists>pre post. c # cs = pre @ p @ post"
    proof cases
      case 1
      then obtain post where "c # cs = p @ post" by (auto simp: startswith_iff)
      then have "c # cs = [] @ p @ post" by simp
      then show ?thesis by blast
    next
      case 2
      with Cons.IH obtain pre post where "cs = pre @ p @ post" by auto
      then have "c # cs = (c # pre) @ p @ post" by simp
      then show ?thesis by blast
    qed
  next
    assume "\<exists>pre post. c # cs = pre @ p @ post"
    then obtain pre post where eq: "c # cs = pre @ p @ post" by blast
    show "contains_str (c # cs) p"
    proof (cases pre)
      case Nil
      with eq have "startswith (c # cs) p" by (auto simp: startswith_iff)
      then show ?thesis by simp
    next
      case (Cons a pre')
      with eq have "cs = pre' @ p @ post" by simp
      with Cons.IH have "contains_str cs p" by blast
      then show ?thesis by simp
    qed
  qed
qed

lemma needs_visualization_iff:
  "needs_visualization query results \<longleftrightarrow>
     (\<exists>keyword \<in> set viz_keywords. \<exists>pre post. lower query = pre @ keyword @ post)"
  by (simp add: needs_visualization_def list_ex_iff contains_str_iff)

lemma process_with_scripts:
  assumes "load_files env files dataframes context h = (None, dataframes1, context1, h1)"
    and "env_build_prompt env query context1 dataframes1 h1 = Inr prompt"
    and "env_generate_content env prompt = Inr response_text"
    and "extract_code_blocks response_text \<noteq> []"
    and "run_scripts env (extract_code_blocks response_text) [] dataframes1 h1 =
           (execution_results, dataframes2, h2)"
  shows "CodeInterpreterAgent_process env query context files dataframes h =
           (Inr (analysis_with_code query response_text (extract_code_blocks response_text)
                   execution_results dataframes2 h2), dataframes2, h2)"
  using assms by (simp add: CodeInterpreterAgent_process_def Let_def)



declare run_scripts.simps(2) [simp del]




lemma two_script_blocks:
  "extract_code_blocks
     ''First:\<newline>```python\<newline>x = 1/0\<newline>```\<newline>then:\<newline>```python\<newline>y = 2\<newline>print(y)\<newline>```'' =
   [''x = 1/0'', ''y = 2\<newline>print(y)'']"
  by (simp add: extract_code_blocks_def extract_step.simps strip_def isspace_def startswith_def
      fence_open_def fence_close_def newline_def)

lemma trend_query: "needs_visualization ''Show the trend of revenue'' rs"
  unfolding needs_visualization_def viz_keywords_def lower_def lower_char_def Let_def
    startswith_def by code_simp

text \<open>
  Claim C8: when the files load, the prompt is built, the model answers and at least
  one script is extracted (and so executed), the envelope names the Plotting worker as
  next iff the lower-cased query contains one of the words of \<open>viz_keywords\<close> (plot,
  graph, chart, visualize, show, display, trend, distribution, compare, correlation),
  and the Synthesis worker otherwise.
\<close>

theorem analysis_next_worker:
  assumes load: "load_files env files dataframes context h = (None, dataframes1, context1, h1)"
    and prompt: "env_build_prompt env query context1 dataframes1 h1 = Inr prompt"
    and reply: "env_generate_content env prompt = Inr response_text"
    and scripts: "extract_code_blocks response_text \<noteq> []"
  shows "\<exists>res. fst (CodeInterpreterAgent_process env query context files dataframes h) = Inr res \<and>
           next_agent res =
             Some (if (\<exists>keyword \<in> set viz_keywords. \<exists>pre post. lower query = pre @ keyword @ post)
                   then ''VisualizationAgent'' else ''AnswerSynthesiser'')"
proof -
  obtain rs d2 h2 where run:
    "run_scripts env (extract_code_blocks response_text) [] dataframes1 h1 = (rs, d2, h2)"
    by (cases "run_scripts env (extract_code_blocks response_text) [] dataframes1 h1")
  from process_with_scripts [OF load prompt reply scripts run]
  show ?thesis
    by (simp add: analysis_with_code_def Let_def needs_visualization_iff)
qed

theorem analysis_next_worker_witness:
  "load_files two_script_env [] [] [] sales_heap = (None, [], [], sales_heap) \<and>
   env_build_prompt two_script_env ''Show the trend of revenue'' [] [] sales_heap =
     Inr ''Show the trend of revenue'' \<and>
   (\<exists>res. fst (CodeInterpreterAgent_process two_script_env ''Show the trend of revenue''
              [] [] [] sales_heap) = Inr res \<and>
          next_agent res = Some ''VisualizationAgent'')"
proof -
  have load: "load_files two_script_env [] [] [] sales_heap = (None, [], [], sales_heap)"
    by simp
  have prompt: "env_build_prompt two_script_env ''Show the trend of revenue'' [] [] sales_heap =
     Inr ''Show the trend of revenue''"
    by (simp add: two_script_env_def)
  have reply: "env_generate_content two_script_env ''Show the trend of revenue'' =
     Inr ''First:\<newline>```python\<newline>x = 1/0\<newline>```\<newline>then:\<newline>```python\<newline>y = 2\<newline>print(y)\<newline>```''"
    by (simp add: two_script_env_def)
  have scripts: "extract_code_blocks
     ''First:\<newline>```python\<newline>x = 1/0\<newline>```\<newline>then:\<newline>```python\<newline>y = 2\<newline>print(y)\<newline>```'' \<noteq> []"
    by (simp add: two_script_blocks)
  have kw: "\<exists>keyword \<in> set viz_keywords. \<exists>pre post.
              lower ''Show the trend of revenue'' = pre @ keyword @ post"
    using trend_query [of "[]"] by (simp only: needs_visualization_iff)
  from analysis_next_worker [OF load prompt reply scripts] kw load prompt
  show ?thesis by (simp only: if_True)
qed






text \<open>The file loop: a prefix that loads, and what it leaves in the registry.\<close>

lemma load_files_append:
  "load_files env pre dataframes ctx h = (None, dataframes1, ctx1, h1) \<Longrightarrow>
   load_files env (pre @ rest) dataframes ctx h = load_files env rest dataframes1 ctx1 h1"
proof (induction pre arbitrary: dataframes ctx h)
  case Nil
  then show ?case by simp
next
  case (Cons f pre)
  obtain filename filepath where f: "f = (filename, filepath)" by (cases f)
  from Cons.prems f obtain df h2 info where
    rd: "env_read_csv env filepath h = Inr (df, h2)" and
    sm: "env_summary env (h2 df) = Inr info" and
    rest: "load_files env pre (AList.update filename df dataframes)
             (AList.update (''df_'' @ filename) info ctx) h2 =
           (None, dataframes1, ctx1, h1)"
    by (auto split: sum.splits prod.splits)
  from Cons.IH [OF rest] f rd sm show ?case by simp
qed

lemma load_files_registry:
  "load_files env files dataframes ctx h = (None, dataframes1, ctx1, h1) \<Longrightarrow>
   (\<forall>name \<in> fst ` set files. map_of dataframes1 name \<noteq> None) \<and>
   (\<forall>name. name \<notin> fst ` set files \<longrightarrow> map_of dataframes1 name = map_of dataframes name)"
proof (induction files arbitrary: dataframes ctx h)
  case Nil
  then show ?case by simp
next
  case (Cons f files)
  obtain filename filepath where f: "f = (filename, filepath)" by (cases f)
  from Cons.prems f obtain df h2 info where
    rd: "env_read_csv env filepath h = Inr (df, h2)" and
    sm: "env_summary env (h2 df) = Inr info" and
    rest: "load_files env files (AList.update filename df dataframes)
             (AList.update (''df_'' @ filename) info ctx) h2 =
           (None, dataframes1, ctx1, h1)"
    by (auto split: sum.splits prod.splits)
  note ih = Cons.IH [OF rest]
  have "map_of dataframes1 name \<noteq> None" if "name \<in> fst ` set (f # files)" for name
  proof (cases "name \<in> fst ` set files")
    case True
    with ih show ?thesis by blast
  next
    case False
    with that f have "name = filename" by auto
    with False ih show ?thesis by (simp add: AList.update_conv')
  qed
  moreover have "map_of dataframes1 name = map_of dataframes name"
    if "name \<notin> fst ` set (f # files)" for name
    using that ih f by (simp add: AList.update_conv')
  ultimately show ?case by blast
qed

text \<open>
  Claim C4, as the code has it. When a file fails to parse, the invocation returns at
  once with \<open>success = False\<close>, no payload and a message naming the file (the model is
  not called); the failing file and the files after it are not loaded. The files before
  it in the order of the mapping have been loaded one by one and stay in the registry:
  nothing is rolled back.
\<close>

theorem load_failure_keeps_earlier_files:
  assumes pre: "load_files env pre dataframes context h = (None, dataframes1, context1, h1)"
    and bad: "env_read_csv env filepath h1 = Inl e"
  shows "CodeInterpreterAgent_process env query context (pre @ (filename, filepath) # post)
           dataframes h = (Inr (csv_failure filename e), dataframes1, h1) \<and>
         \<not> success (csv_failure filename e) \<and> data (csv_failure filename e) = NoData \<and>
         (\<forall>name \<in> fst ` set pre. map_of dataframes1 name \<noteq> None) \<and>
         (\<forall>name. name \<notin> fst ` set pre \<longrightarrow> map_of dataframes1 name = map_of dataframes name)"
proof -
  have "load_files env (pre @ (filename, filepath) # post) dataframes context h =
          (Some (csv_failure filename e), dataframes1, context1, h1)"
    using load_files_append [OF pre, of "(filename, filepath) # post"] bad by simp
  then have "CodeInterpreterAgent_process env query context (pre @ (filename, filepath) # post)
           dataframes h = (Inr (csv_failure filename e), dataframes1, h1)"
    by (simp add: CodeInterpreterAgent_process_def)
  with load_files_registry [OF pre] show ?thesis
    by (simp add: csv_failure_def)
qed

lemma csv_env_first_file:
  "load_files csv_env [(''a.csv'', ''uploads/a.csv'')] [] [] sales_heap =
     (None, [(''a.csv'', 0)], [(''df_a.csv'', JDict [(''shape'', shape_value sales_table)])],
      sales_heap(0 := sales_table))"
  by (simp add: csv_env_def)

theorem load_failure_keeps_earlier_files_witness:
  "load_files csv_env [(''a.csv'', ''uploads/a.csv'')] [] [] sales_heap =
     (None, [(''a.csv'', 0)], [(''df_a.csv'', JDict [(''shape'', shape_value sales_table)])],
      sales_heap(0 := sales_table)) \<and>
   env_read_csv csv_env ''uploads/b.csv'' (sales_heap(0 := sales_table)) =
     Inl (Exn ''ParserError'' ''Error tokenizing data'') \<and>
   fst (CodeInterpreterAgent_process csv_env ''mean of revenue'' []
          ([(''a.csv'', ''uploads/a.csv'')] @ (''b.csv'', ''uploads/b.csv'') # [(''c.csv'', ''uploads/a.csv'')])
          [] sales_heap) =
     Inr (csv_failure ''b.csv'' (Exn ''ParserError'' ''Error tokenizing data'')) \<and>
   map_of [(''a.csv'', 0::nat)] ''a.csv'' \<noteq> None \<and>
   map_of [(''a.csv'', 0::nat)] ''c.csv'' = map_of [] ''c.csv''"
proof -
  have bad: "env_read_csv csv_env ''uploads/b.csv'' (sales_heap(0 := sales_table)) =
     Inl (Exn ''ParserError'' ''Error tokenizing data'')"
    by (simp add: csv_env_def)
  from load_failure_keeps_earlier_files [OF csv_env_first_file bad,
      of "''mean of revenue''" "''b.csv''" "[(''c.csv'', ''uploads/a.csv'')]"]
    csv_env_first_file bad
  show ?thesis by simp
qed

text \<open>
  Claim C4 as stated fails: of the two files below the second does not parse; the
  invocation fails, and the registry holds the table of the first.
\<close>

theorem partial_load_counterexample:
  "env_read_csv csv_env ''uploads/b.csv'' (sales_heap(0 := sales_table)) =
     Inl (Exn ''ParserError'' ''Error tokenizing data'') \<and>
   CodeInterpreterAgent_process csv_env ''mean of revenue'' []
       [(''a.csv'', ''uploads/a.csv''), (''b.csv'', ''uploads/b.csv'')] [] sales_heap =
     (Inr (csv_failure ''b.csv'' (Exn ''ParserError'' ''Error tokenizing data'')),
      [(''a.csv'', 0)], sales_heap(0 := sales_table)) \<and>
   \<not> success (csv_failure ''b.csv'' (Exn ''ParserError'' ''Error tokenizing data'')) \<and>
   table_of [(''a.csv'', 0)] (sales_heap(0 := sales_table)) ''a.csv'' = Some sales_table"
  by (simp add: CodeInterpreterAgent_process_def csv_env_def csv_failure_def table_of_def)

section \<open>Properties of the Plotting worker\<close>














section \<open>Properties of the worker boundary\<close>

text \<open>
  Claim C3 does not hold of the code: three of the four workers build the prompt before
  their \<open>try\<close>. For the Reporting worker the input below is a context whose entry
  \<open>code_interpreter_data\<close> is \<open>None\<close> (the payload of a failed Analysis envelope):
  \<open>"analysis" in ci_data\<close> raises \<open>TypeError\<close> in \<open>_build_prompt\<close>, and the exception
  leaves \<open>process\<close> instead of becoming an envelope with \<open>success = False\<close>.
\<close>

theorem presentation_prompt_failure_escapes:
  "PresentationAgent_process env ''Summarise the analysis''
     [(''code_interpreter_data'', JNone)] =
   Inl (Exn ''TypeError'' ''argument of type NoneType is not iterable'')"
  by (simp add: PresentationAgent_process_def presentation_build_prompt_def
      add_analysis_results_def)

text \<open>
  The Synthesis worker builds its prompt inside the \<open>try\<close>: it returns an envelope on
  every input, and a context its prompt builder cannot read gives \<open>success = False\<close>.
  The Analysis and Plotting workers, like the Reporting worker, let an exception of
  their prompt builder through; an exception of the model call is caught by all.
\<close>

lemma synthesis_never_raises:
  "\<exists>res. AnswerSynthesiserAgent_process generate_content query context = Inr res"
  by (simp add: AnswerSynthesiserAgent_process_def split: sum.splits)

lemma synthesis_prompt_failure_caught:
  "AnswerSynthesiserAgent_process generate_content ''Summarise the analysis''
     [(''codeinterpreter_data'', JStr ''pending'')] =
   Inr (synthesis_failure (Exn ''AttributeError'' ''str object has no attribute get''))"
  by (simp add: AnswerSynthesiserAgent_process_def synthesis_build_prompt_def context_get_def
      add_code_results_def)

lemma analysis_prompt_failure_escapes:
  assumes "load_files env files dataframes context h = (None, dataframes1, context1, h1)"
    and "env_build_prompt env query context1 dataframes1 h1 = Inl e"
  shows "fst (CodeInterpreterAgent_process env query context files dataframes h) = Inl e"
  using assms by (simp add: CodeInterpreterAgent_process_def)

lemma plotting_prompt_failure_escapes:
  "VisualizationAgent_process env ''Plot revenue by region'' [(''dataframes_info'', JNone)] fs =
     (Inl (Exn ''AttributeError'' ''NoneType object has no attribute items''), fs)"
  by (simp add: VisualizationAgent_process_def visualization_build_prompt_def)

lemma model_failure_caught:
  "renv_generate_content env prompt = Inl e \<Longrightarrow>
   presentation_build_prompt query context = Inr prompt \<Longrightarrow>
   PresentationAgent_process env query context = Inr (presentation_failure e)"
  by (simp add: PresentationAgent_process_def)

end
